theory Spec2Isabelle
  imports Complex_Main
begin

section \<open>JavaScript values\<close>

text \<open>
  The payloads the sync functions read are parsed JSON, typed \<open>any\<close> in the source.
  A field is a \<open>jsval\<close>; a field the payload does not carry is \<open>JUndefined\<close>.
  \<open>truthy\<close> is JavaScript's boolean coercion (arrays and objects are always truthy)
  and \<open>js_or\<close> is the operator \<open>||\<close>.
\<close>

datatype jsval =
    JUndefined
  | JNull
  | JBool bool
  | JNum int
  | JStr string
  | JArr "jsval list"
  | JObj "(string \<times> jsval) list"

fun truthy :: "jsval \<Rightarrow> bool" where
  "truthy JUndefined = False"
| "truthy JNull = False"
| "truthy (JBool b) = b"
| "truthy (JNum n) = (n \<noteq> 0)"
| "truthy (JStr s) = (s \<noteq> [])"
| "truthy (JArr xs) = True"
| "truthy (JObj kvs) = True"

definition js_or :: "jsval \<Rightarrow> jsval \<Rightarrow> jsval" where
  "js_or a b = (if truthy a then a else b)"

section \<open>Status derivation (zoom-sync-webinars-v2, determineWebinarStatus)\<close>

datatype webinar_type = Past | Upcoming

text \<open>
  The fields of a webinar detail payload that the modelled code reads. The remaining
  columns of the stored row are filled by the same kind of fallback chain from fields
  that no statement below depends on; they are left out.
\<close>

record webinarDetails =
  wd_id :: jsval
  wd_uuid :: jsval
  wd_topic :: jsval
  wd_start_time :: jsval
  wd_status :: jsval
  wd_created_at :: jsval
  wd_registrants_count :: jsval
  wd_participants_count :: jsval
  wd_avg_attendance_duration :: jsval
  wd_tracking_fields :: jsval

definition validStatuses :: "jsval list" where
  "validStatuses = [JStr ''waiting'', JStr ''started'', JStr ''finished'', JStr ''scheduled'']"

text \<open>
  \<open>toTime v\<close> is the time value, in milliseconds, of the JavaScript object
  \<open>new Date(v)\<close>, and \<open>None\<close> when that is an Invalid Date; it is the language's own
  parser and is a parameter of the model. \<open>startTime < now\<close> compares the two time
  values and is false when \<open>startTime\<close> is an Invalid Date.
\<close>

definition determineWebinarStatus ::
  "(jsval \<Rightarrow> int option) \<Rightarrow> int \<Rightarrow> webinarDetails \<Rightarrow> webinar_type \<Rightarrow> jsval" where
  "determineWebinarStatus toTime now webinarDetails webinarType =
     (if webinarType = Past then JStr ''finished''
      else if truthy (wd_start_time webinarDetails) \<and>
              (case toTime (wd_start_time webinarDetails) of
                 None \<Rightarrow> False
               | Some startTime \<Rightarrow> startTime < now)
      then JStr ''finished''
      else if truthy (wd_status webinarDetails) \<and>
              wd_status webinarDetails \<in> set validStatuses
      then wd_status webinarDetails
      else JStr ''scheduled'')"

text \<open>
  The condition of step 2 of the specified algorithm: the payload has a start time and
  it lies strictly before the current instant.
\<close>

definition starts_before ::
  "(jsval \<Rightarrow> int option) \<Rightarrow> int \<Rightarrow> webinarDetails \<Rightarrow> bool" where
  "starts_before toTime now webinarDetails =
     (case toTime (wd_start_time webinarDetails) of
        None \<Rightarrow> False
      | Some t \<Rightarrow> truthy (wd_start_time webinarDetails) \<and> t < now)"

definition allowed_statuses :: "jsval set" where
  "allowed_statuses = JStr ` {''waiting'', ''started'', ''finished'', ''scheduled''}"

section \<open>Rate limiter (zoom-sync-webinars-v2, class RateLimitManager)\<close>

text \<open>
  The fields of the class. \<open>retryAfter\<close> is a JavaScript number: \<open>None\<close> stands for
  \<open>NaN\<close>, which the field holds after \<open>parseInt\<close> fails on the retry-after header.
  The clock (\<open>Date.now()\<close>, in milliseconds) is passed along with the manager.

  \<open>await new Promise(resolve => setTimeout(resolve, d))\<close> suspends the caller for
  \<open>timer d\<close> milliseconds. \<open>setTimeout\<close> belongs to the runtime, not to the sources, and
  it does not wait for every delay it is asked for (it takes the delay as a 32-bit
  integer, so that a delay above 2147483647 ms is not honoured; a negative delay or
  \<open>NaN\<close>, here \<open>None\<close>, is no delay): \<open>timer\<close> is a parameter of the functions that wait.
\<close>

record RateLimitManager =
  callsPerMinute :: nat
  callsPerSecond :: nat
  windowStart :: int
  secondWindowStart :: int
  retryAfter :: "int option"

definition MAX_CALLS_PER_MINUTE :: nat where
  "MAX_CALLS_PER_MINUTE = 30"

definition MAX_CALLS_PER_SECOND :: nat where
  "MAX_CALLS_PER_SECOND = 2"

definition newRateLimitManager :: "int \<Rightarrow> RateLimitManager" where
  "newRateLimitManager t =
     \<lparr>callsPerMinute = 0, callsPerSecond = 0, windowStart = t, secondWindowStart = t,
      retryAfter = Some 0\<rparr>"

text \<open>
  A thrown value as \<open>executeWithRateLimit\<close> reads it: \<open>error.status\<close>,
  \<open>error.headers?.['retry-after']\<close> and \<open>error.message\<close>. An operation is given by
  the outcome of each of its invocations, numbered from the first, with the time the
  invocation took.
\<close>

record js_error =
  err_status :: jsval
  err_retry_after :: jsval
  err_message :: string

datatype 'a outcome = Returns 'a | Throws js_error

definition recordCall :: "RateLimitManager \<Rightarrow> RateLimitManager" where
  "recordCall m =
     m\<lparr>callsPerMinute := callsPerMinute m + 1, callsPerSecond := callsPerSecond m + 1\<rparr>"

definition waitForRateLimit ::
  "(int option \<Rightarrow> int) \<Rightarrow> RateLimitManager \<Rightarrow> int \<Rightarrow> RateLimitManager \<times> int" where
  "waitForRateLimit timer m t =
     (case (case retryAfter m of None \<Rightarrow> None | Some r \<Rightarrow> if r > t then Some r else None) of
        Some r \<Rightarrow> (let waitTime = r - t in (m, t + timer (Some waitTime)))
      | None \<Rightarrow>
         (let now = t;
              m1 = (if now - windowStart m > 60000
                    then m\<lparr>callsPerMinute := 0, windowStart := now\<rparr> else m);
              m2 = (if now - secondWindowStart m1 > 1000
                    then m1\<lparr>callsPerSecond := 0, secondWindowStart := now\<rparr> else m1);
              s3 = (if callsPerSecond m2 \<ge> MAX_CALLS_PER_SECOND
                    then (let waitTime = 1000 - (now - secondWindowStart m2)
                          in if waitTime > 0
                             then (m2\<lparr>callsPerSecond := 0,
                                      secondWindowStart := t + timer (Some waitTime)\<rparr>,
                                   t + timer (Some waitTime))
                             else (m2, t))
                    else (m2, t));
              m3 = fst s3; t3 = snd s3
          in if callsPerMinute m3 \<ge> MAX_CALLS_PER_MINUTE
             then (let waitTime = 60000 - (now - windowStart m3)
                   in if waitTime > 0
                      then (m3\<lparr>callsPerMinute := 0, windowStart := t3 + timer (Some waitTime)\<rparr>,
                            t3 + timer (Some waitTime))
                      else (m3, t3))
             else (m3, t3)))"

text \<open>
  \<open>executeWithRateLimit timer parseInt fn k m t\<close>: the call that starts with invocation \<open>k\<close>
  of the operation \<open>fn\<close>, the manager \<open>m\<close> and the clock at \<open>t\<close>. The result is the
  value returned or the error rethrown, with the manager and the clock afterwards;
  \<open>None\<close> when the call never returns. \<open>parseInt\<close> is the language's own function
  (\<open>None\<close> for \<open>NaN\<close>) and is a parameter.
\<close>

partial_function (option) executeWithRateLimit ::
  "(int option \<Rightarrow> int) \<Rightarrow> (jsval \<Rightarrow> int option) \<Rightarrow> (nat \<Rightarrow> 'a outcome \<times> nat) \<Rightarrow> nat
     \<Rightarrow> RateLimitManager \<Rightarrow> int \<Rightarrow> ((js_error + 'a) \<times> RateLimitManager \<times> int) option" where
  "executeWithRateLimit timer parseInt fn k m t =
     (let m1 = fst (waitForRateLimit timer m t);
          t2 = snd (waitForRateLimit timer m t) + int (snd (fn k))
      in case fst (fn k) of
           Returns result \<Rightarrow> Some (Inr result, recordCall m1, t2)
         | Throws error \<Rightarrow>
             if err_status error = JNum 429
             then (case parseInt (js_or (err_retry_after error) (JStr ''60'')) of
                     None \<Rightarrow>
                       executeWithRateLimit timer parseInt fn (Suc k)
                         (m1\<lparr>retryAfter := None\<rparr>) (t2 + timer None)
                   | Some seconds \<Rightarrow>
                       executeWithRateLimit timer parseInt fn (Suc k)
                         (m1\<lparr>retryAfter := Some (t2 + seconds * 1000)\<rparr>)
                         (t2 + timer (Some (seconds * 1000))))
             else Some (Inl error, m1, t2))"

text \<open>
  The \<open>n\<close> invocations from \<open>k\<close> on are all rejected with status 429.
\<close>

fun all_429 :: "(nat \<Rightarrow> 'a outcome \<times> nat) \<Rightarrow> nat \<Rightarrow> nat \<Rightarrow> bool" where
  "all_429 fn k 0 = True"
| "all_429 fn k (Suc n) =
     (case fst (fn k) of
        Returns result \<Rightarrow> False
      | Throws error \<Rightarrow> err_status error = JNum 429 \<and> all_429 fn (Suc k) n)"

section \<open>Page-limited listing (zoom-sync-webinars, ZoomWebinarSyncService.fetchWebinars)\<close>

text \<open>
  What a \<open>fetch\<close> of a Zoom endpoint gives: the call throws (\<open>Rejected\<close>, with the
  error's message; a body that is not JSON is the same case), or the response is not
  ok (\<open>NotOk\<close>, with its status and text), or it is ok with the parsed body.
  A list endpoint is given by its answer to the \<open>k\<close>-th list call of one enumeration
  and the page token that call carries.
\<close>

datatype 'a http = Rejected string | NotOk nat string | Ok 'a

record webinar_stub =
  ws_id :: jsval
  ws_uuid :: jsval

record list_page =
  lp_webinars :: "webinar_stub list"
  lp_next_page_token :: jsval

datatype v1_failure = FetchThrew string | FailedToFetchWebinars nat string

definition maxPages :: nat where
  "maxPages = 10"

text \<open>
  The \<open>do ... while\<close> loop of \<open>fetchWebinars\<close>. The second component of the result
  counts the list calls issued (the final \<open>pageCount\<close>).
\<close>

function fetchWebinars_loop ::
  "(nat \<Rightarrow> jsval \<Rightarrow> list_page http) \<Rightarrow> webinar_stub list \<Rightarrow> jsval \<Rightarrow> nat
     \<Rightarrow> (v1_failure + webinar_stub list) \<times> nat" where
  "fetchWebinars_loop zoom allWebinars nextPageToken pageCount =
     (case zoom (pageCount + 1) nextPageToken of
        Rejected m \<Rightarrow> (Inl (FetchThrew m), pageCount + 1)
      | NotOk status errorText \<Rightarrow> (Inl (FailedToFetchWebinars status errorText), pageCount + 1)
      | Ok data \<Rightarrow>
          (let allWebinars' = (if lp_webinars data \<noteq> [] then allWebinars @ lp_webinars data
                               else allWebinars);
               nextPageToken' = js_or (lp_next_page_token data) (JStr '''')
           in if truthy nextPageToken' \<and> pageCount + 1 < maxPages
              then fetchWebinars_loop zoom allWebinars' nextPageToken' (pageCount + 1)
              else (Inr allWebinars', pageCount + 1)))"
  by pat_completeness auto
termination
  by (relation "measure (\<lambda>(zoom, allWebinars, nextPageToken, pageCount). maxPages - pageCount)")
     auto

definition fetchWebinars ::
  "(nat \<Rightarrow> jsval \<Rightarrow> list_page http) \<Rightarrow> (v1_failure + webinar_stub list) \<times> nat" where
  "fetchWebinars zoom = fetchWebinars_loop zoom [] (JStr '''') 0"

section \<open>The queue-based sync (zoom-sync-webinars-v2): data\<close>

record WebinarQueueItem =
  qi_webinar_id :: jsval
  qi_webinar_type :: webinar_type

text \<open>
  The body of the participants endpoint: the \<open>duration\<close> of each participant (a
  number, \<open>None\<close> when the participant has none) and \<open>total_records\<close>.
\<close>

record participants_body =
  pb_participants :: "int option list"
  pb_total_records :: jsval

text \<open>The object \<open>additionalData\<close>; a property never assigned is \<open>JUndefined\<close>.\<close>

record additionalData =
  registrantCount :: jsval
  participantCount :: jsval
  avgAttendanceDuration :: jsval
  trackingSources :: jsval
  polls :: jsval
  qa :: jsval

text \<open>
  The tables the function writes, with the columns it sets or reads. The schema of the
  tables is not part of the sources: a queue row gets its \<open>id\<close> from the store, and the
  columns the insert does not set take the defaults the code relies on
  (\<open>processing_status = 'pending'\<close>, which the drain selects on, and \<open>retry_count = 0\<close>,
  which the failure branch increments).
\<close>

record sync_log =
  sl_id :: jsval
  sl_connection_id :: jsval
  sl_status :: string
  sl_started_at :: int
  sl_ended_at :: "int option"
  sl_sync_type :: jsval
  sl_webinars_synced :: "nat option"

record queue_row =
  q_id :: nat
  q_sync_id :: jsval
  q_webinar_id :: jsval
  q_webinar_type :: webinar_type
  q_priority :: int
  q_scheduled_at :: int
  q_processing_status :: string
  q_started_at :: "int option"
  q_completed_at :: "int option"
  q_error_message :: "string option"
  q_retry_count :: int

record sync_state_row =
  ss_sync_id :: jsval
  ss_connection_id :: jsval
  ss_state_type :: string
  ss_total_items :: nat
  ss_processed_items :: nat
  ss_last_processed_item :: jsval

record webinar_row =
  w_webinar_id :: jsval
  w_connection_id :: jsval
  w_topic :: jsval
  w_start_time :: jsval
  w_webinar_created_at :: "int option"
  w_status :: jsval
  w_total_registrants :: jsval
  w_total_attendees :: jsval
  w_avg_attendance_duration :: jsval
  w_tracking_fields :: jsval
  w_additional_data :: additionalData
  w_synced_at :: int
  w_sync_status :: string
  w_participant_sync_status :: string

text \<open>
  A progress message is a template literal of the source; the constructor names the
  template and carries the values it interpolates.
\<close>

datatype message =
    Resuming
  | StartingNew
  | FetchingLists
  | FetchingPage webinar_type nat nat
  | Queuing nat
  | ProcessedWebinar jsval jsval jsval
  | FailedToProcess jsval string
  | ProcessingWebinars nat nat
  | SyncCompleted nat

record progress_update =
  pu_sync_id :: jsval
  pu_update_type :: string
  pu_message :: message
  pu_progress_percentage :: "real option"

text \<open>
  The list and detail requests sent to Zoom, in order: a trace kept beside the tables
  so that statements can say which resources a run fetched.
\<close>

datatype zoom_request = ListRequest webinar_type jsval | DetailRequest jsval webinar_type

text \<open>
  The state one invocation works on. The store applies every write whose result the
  code does not inspect. \<open>clock\<close> is the reading of \<open>new Date()\<close>; the orchestrator
  reads it and does not advance it.
\<close>

record world =
  zoom_sync_logs :: "sync_log list"
  webinar_sync_queue :: "queue_row list"
  sync_state :: "sync_state_row list"
  zoom_webinars :: "webinar_row list"
  sync_progress_updates :: "progress_update list"
  zoom_requests :: "zoom_request list"
  clock :: int

text \<open>
  What the invocation does not decide: the environment variables, the credential
  provider (\<open>getZoomAccessToken\<close>: the token, or the message of the error it throws),
  the id the store gives a new sync log (\<open>None\<close>: the insert fails), the Zoom
  endpoints, the errors the store reports where the code checks for one, the
  \<open>sync_state\<close> upsert (its conflict target is the table's primary key, which the
  sources do not declare) and \<open>toTime\<close>.
\<close>

record environment =
  env_vars_present :: bool
  credential :: "string + string"
  new_sync_log_id :: "jsval option"
  list_endpoint :: "webinar_type \<Rightarrow> nat \<Rightarrow> jsval \<Rightarrow> list_page http"
  detail_endpoint :: "jsval \<Rightarrow> webinar_type \<Rightarrow> webinarDetails http"
  registrants_endpoint :: "jsval \<Rightarrow> jsval http"
  participants_endpoint :: "jsval \<Rightarrow> participants_body http"
  tracking_sources_endpoint :: "jsval \<Rightarrow> jsval http"
  polls_endpoint :: "jsval \<Rightarrow> jsval http"
  qa_endpoint :: "jsval \<Rightarrow> jsval http"
  queue_insert_error :: "string option"
  upsert_error :: "webinar_row \<Rightarrow> string option"
  upsert_sync_state :: "sync_state_row list \<Rightarrow> sync_state_row \<Rightarrow> sync_state_row list"
  toTime :: "jsval \<Rightarrow> int option"

record sync_request =
  rq_connectionId :: jsval
  rq_syncMode :: jsval
  rq_resumeSyncId :: jsval

text \<open>
  A request: its method and what \<open>req.json()\<close> gives (\<open>Inl\<close>: it throws). The date
  range of the body only selects what the list endpoints return.
\<close>

record request =
  rq_method :: string
  rq_json :: "string + sync_request"

record http_response =
  rs_status :: nat
  rs_body :: "(string \<times> jsval) list option"

section \<open>The queue-based sync: remote client and item processing\<close>

text \<open>
  Every operation this file hands to \<open>executeWithRateLimit\<close> throws plain \<open>Error\<close>
  objects or what \<open>fetch\<close> throws, none of which has a \<open>status\<close> property, so the
  limiter returns or rethrows what the operation does at its first invocation (lemma
  \<open>executeWithRateLimit_without_status\<close> below) and changes the clock only. The
  functions below therefore call the endpoints directly.
\<close>

text \<open>
  \<open>broadcastProgress\<close> appends one row to \<open>sync_progress_updates\<close>.
\<close>

definition broadcastProgress ::
  "world \<Rightarrow> jsval \<Rightarrow> string \<Rightarrow> message \<Rightarrow> real option \<Rightarrow> world" where
  "broadcastProgress w syncId type msg percentage =
     w\<lparr>sync_progress_updates := sync_progress_updates w @
         [\<lparr>pu_sync_id = syncId, pu_update_type = type, pu_message = msg,
           pu_progress_percentage = percentage\<rparr>]\<rparr>"

text \<open>
  \<open>fetchWebinarList\<close>: the page, or the message of the error thrown.
\<close>

definition fetchWebinarList ::
  "environment \<Rightarrow> webinar_type \<Rightarrow> nat \<Rightarrow> jsval \<Rightarrow> string + list_page" where
  "fetchWebinarList env type k nextPageToken =
     (case list_endpoint env type k nextPageToken of
        Rejected m \<Rightarrow> Inl m
      | NotOk status error \<Rightarrow> Inl (''Failed to fetch webinar list: '' @ error)
      | Ok data \<Rightarrow> Inr data)"

text \<open>
  The two \<open>do ... while (nextPageToken)\<close> loops of \<open>serve\<close>, for the past and the
  upcoming webinars. They differ in the kind, in the percentage they report (5, 10)
  and in the count they report (the upcoming loop subtracts \<open>upcomingStart\<close>, which is
  0 for the past loop). The result is \<open>None\<close> when the loop never ends.
\<close>

partial_function (option) fetchPages ::
  "environment \<Rightarrow> webinar_type \<Rightarrow> jsval \<Rightarrow> nat \<Rightarrow> WebinarQueueItem list \<Rightarrow> jsval \<Rightarrow> nat \<Rightarrow> world
     \<Rightarrow> ((string + WebinarQueueItem list) \<times> world) option" where
  "fetchPages env type syncId upcomingStart allWebinars nextPageToken pageCount w =
     (let w1 = w\<lparr>zoom_requests := zoom_requests w @ [ListRequest type nextPageToken]\<rparr>
      in case fetchWebinarList env type (pageCount + 1) nextPageToken of
           Inl e \<Rightarrow> Some (Inl e, w1)
         | Inr page \<Rightarrow>
             (let allWebinars' = allWebinars @
                    map (\<lambda>ws. \<lparr>qi_webinar_id = js_or (ws_id ws) (ws_uuid ws),
                                 qi_webinar_type = type\<rparr>) (lp_webinars page);
                  w2 = broadcastProgress w1 syncId ''progress''
                         (FetchingPage type (pageCount + 1) (length allWebinars' - upcomingStart))
                         (Some (if type = Past then 5 else 10))
              in if truthy (lp_next_page_token page)
                 then fetchPages env type syncId upcomingStart allWebinars'
                        (lp_next_page_token page) (pageCount + 1) w2
                 else Some (Inr allWebinars', w2)))"

definition fetchWebinarDetails ::
  "environment \<Rightarrow> jsval \<Rightarrow> webinar_type \<Rightarrow> string + webinarDetails" where
  "fetchWebinarDetails env webinarId type =
     (case detail_endpoint env webinarId type of
        Rejected m \<Rightarrow> Inl m
      | NotOk status error \<Rightarrow> Inl (''Failed to fetch webinar details: '' @ error)
      | Ok data \<Rightarrow> Inr data)"

text \<open>
  The operation \<open>() => fetchWebinarDetails(accessToken, webinarId, type)\<close> that
  \<open>processWebinar\<close> hands to \<open>executeWithRateLimit\<close>. What it throws is the \<open>Error\<close>
  made by \<open>fetchWebinarDetails\<close> or the error \<open>fetch\<close> rejects with: an object with a
  message and neither \<open>status\<close> nor \<open>headers\<close>. The status and the headers of the
  response are not copied to it.
\<close>

definition plain_error :: "string \<Rightarrow> js_error" where
  "plain_error m = \<lparr>err_status = JUndefined, err_retry_after = JUndefined, err_message = m\<rparr>"

definition detailOperation ::
  "environment \<Rightarrow> jsval \<Rightarrow> webinar_type \<Rightarrow> nat \<Rightarrow> webinarDetails outcome \<times> nat" where
  "detailOperation env webinarId type k =
     (case fetchWebinarDetails env webinarId type of
        Inl m \<Rightarrow> Throws (plain_error m)
      | Inr data \<Rightarrow> Returns data, 0)"

definition fetchRegistrantCount :: "environment \<Rightarrow> jsval \<Rightarrow> jsval" where
  "fetchRegistrantCount env webinarId =
     (case registrants_endpoint env webinarId of
        Ok total_records \<Rightarrow> js_or total_records (JNum 0)
      | NotOk status error \<Rightarrow> JNum 0
      | Rejected m \<Rightarrow> JNum 0)"

text \<open>
  \<open>Math.round(a / b)\<close> for \<open>a \<ge> 0\<close> and \<open>b > 0\<close>.
\<close>

definition math_round_div :: "int \<Rightarrow> int \<Rightarrow> int" where
  "math_round_div a b = (2 * a + b) div (2 * b)"

definition fetchParticipantData :: "environment \<Rightarrow> jsval \<Rightarrow> jsval \<times> int" where
  "fetchParticipantData env webinarId =
     (case participants_endpoint env webinarId of
        Ok data \<Rightarrow>
          (let participants = pb_participants data;
               count = js_or (pb_total_records data) (JNum (int (length participants)));
               durations = [d. Some d \<leftarrow> participants, d > 0];
               totalDuration = sum_list durations;
               validParticipants = int (length durations);
               avgDuration = (if validParticipants > 0
                              then math_round_div totalDuration validParticipants else 0)
           in (count, avgDuration))
      | NotOk status error \<Rightarrow> (JNum 0, 0)
      | Rejected m \<Rightarrow> (JNum 0, 0))"

text \<open>
  Tracking sources, polls and Q&A: the value the \<open>try\<close> block assigns to the
  property of \<open>additionalData\<close>, and \<open>None\<close> when the call throws and the \<open>catch\<close>
  block, which only logs, leaves the property unassigned.
\<close>

definition list_or_empty :: "jsval http \<Rightarrow> jsval option" where
  "list_or_empty r =
     (case r of
        Ok items \<Rightarrow> Some (js_or items (JArr []))
      | NotOk status error \<Rightarrow> Some (JArr [])
      | Rejected m \<Rightarrow> None)"

definition fetchAdditionalWebinarData ::
  "environment \<Rightarrow> jsval \<Rightarrow> webinar_type \<Rightarrow> additionalData" where
  "fetchAdditionalWebinarData env webinarId type =
     (let a0 = \<lparr>registrantCount = JUndefined, participantCount = JUndefined,
                avgAttendanceDuration = JUndefined, trackingSources = JUndefined,
                polls = JUndefined, qa = JUndefined\<rparr>;
          a1 = a0\<lparr>registrantCount := fetchRegistrantCount env webinarId\<rparr>;
          a2 = (if type = Past
                then (let participantData = fetchParticipantData env webinarId
                      in a1\<lparr>participantCount := fst participantData,
                            avgAttendanceDuration := JNum (snd participantData)\<rparr>)
                else a1);
          a3 = (if type = Upcoming
                then (case list_or_empty (tracking_sources_endpoint env webinarId) of
                        Some v \<Rightarrow> a2\<lparr>trackingSources := v\<rparr>
                      | None \<Rightarrow> a2)
                else a2)
      in if type = Past
         then (let a4 = (case list_or_empty (polls_endpoint env webinarId) of
                           Some v \<Rightarrow> a3\<lparr>polls := v\<rparr>
                         | None \<Rightarrow> a3)
               in case list_or_empty (qa_endpoint env webinarId) of
                    Some v \<Rightarrow> a4\<lparr>qa := v\<rparr>
                  | None \<Rightarrow> a4)
         else a3)"

text \<open>
  The object \<open>webinarData\<close> of \<open>processWebinar\<close>.
  \<open>new Date(created_at).toISOString()\<close> throws a RangeError (\<open>Invalid time value\<close>)
  on an Invalid Date.
\<close>

definition webinarData ::
  "environment \<Rightarrow> int \<Rightarrow> webinarDetails \<Rightarrow> additionalData \<Rightarrow> jsval \<Rightarrow> webinar_type \<Rightarrow> jsval
     \<Rightarrow> string + webinar_row" where
  "webinarData env t webinarDetails additional status type connectionId =
     (case (if truthy (wd_created_at webinarDetails)
            then (case toTime env (wd_created_at webinarDetails) of
                    None \<Rightarrow> Inl ''Invalid time value''
                  | Some c \<Rightarrow> Inr (Some c))
            else Inr None) of
        Inl e \<Rightarrow> Inl e
      | Inr created \<Rightarrow>
          Inr \<lparr>w_webinar_id = js_or (wd_id webinarDetails) (wd_uuid webinarDetails),
               w_connection_id = connectionId,
               w_topic = wd_topic webinarDetails,
               w_start_time = wd_start_time webinarDetails,
               w_webinar_created_at = created,
               w_status = status,
               w_total_registrants =
                 js_or (registrantCount additional)
                   (js_or (wd_registrants_count webinarDetails) (JNum 0)),
               w_total_attendees =
                 js_or (participantCount additional)
                   (js_or (wd_participants_count webinarDetails) (JNum 0)),
               w_avg_attendance_duration =
                 js_or (avgAttendanceDuration additional)
                   (js_or (wd_avg_attendance_duration webinarDetails) (JNum 0)),
               w_tracking_fields =
                 js_or (wd_tracking_fields webinarDetails)
                   (js_or (trackingSources additional) JNull),
               w_additional_data = additional,
               w_synced_at = t,
               w_sync_status = ''synced'',
               w_participant_sync_status =
                 (if type = Past then ''pending'' else ''not_applicable'')\<rparr>)"

text \<open>
  Modelled from the spec: the store's \<open>upsert\<close> with
  \<open>onConflict: 'webinar_id,connection_id'\<close>, which the sources call and do not
  define. The spec: the conflict target is the (resource id, connection id) pair, and a
  conflicting existing row is fully overwritten, not merged field by field.
\<close>

definition conflict_key :: "webinar_row \<Rightarrow> jsval \<times> jsval" where
  "conflict_key r = (w_webinar_id r, w_connection_id r)"

definition upsert :: "webinar_row list \<Rightarrow> webinar_row \<Rightarrow> webinar_row list" where
  "upsert rows r =
     (if conflict_key r \<in> set (map conflict_key rows)
      then map (\<lambda>x. if conflict_key x = conflict_key r then r else x) rows
      else rows @ [r])"

text \<open>
  \<open>update(...).eq('id', i)\<close> on \<open>webinar_sync_queue\<close>.
\<close>

definition update_queue_row :: "world \<Rightarrow> nat \<Rightarrow> (queue_row \<Rightarrow> queue_row) \<Rightarrow> world" where
  "update_queue_row w i f =
     w\<lparr>webinar_sync_queue := map (\<lambda>r. if q_id r = i then f r else r) (webinar_sync_queue w)\<rparr>"

text \<open>
  The \<open>catch\<close> block of \<open>processWebinar\<close>; it rethrows the error, whose message is
  the first component of the result.
\<close>

definition failWebinar :: "world \<Rightarrow> queue_row \<Rightarrow> jsval \<Rightarrow> string \<Rightarrow> string option \<times> world" where
  "failWebinar w queueItem syncId e =
     (let w1 = update_queue_row w (q_id queueItem)
                 (\<lambda>r. r\<lparr>q_processing_status := ''failed'', q_error_message := Some e,
                         q_retry_count := q_retry_count queueItem + 1\<rparr>);
          w2 = broadcastProgress w1 syncId ''error''
                 (FailedToProcess (q_webinar_id queueItem) e) None
      in (Some e, w2))"

text \<open>
  \<open>processWebinar\<close>: \<open>None\<close> when it returns, the message of the error when it
  throws.
\<close>

definition processWebinar ::
  "environment \<Rightarrow> world \<Rightarrow> queue_row \<Rightarrow> jsval \<Rightarrow> jsval \<Rightarrow> string option \<times> world" where
  "processWebinar env w queueItem syncId connectionId =
     (let w1 = update_queue_row w (q_id queueItem)
                 (\<lambda>r. r\<lparr>q_processing_status := ''processing'', q_started_at := Some (clock w)\<rparr>);
          w2 = w1\<lparr>zoom_requests := zoom_requests w1 @
                  [DetailRequest (q_webinar_id queueItem) (q_webinar_type queueItem)]\<rparr>
      in case fetchWebinarDetails env (q_webinar_id queueItem) (q_webinar_type queueItem) of
           Inl e \<Rightarrow> failWebinar w2 queueItem syncId e
         | Inr webinarDetails \<Rightarrow>
             (let additional = fetchAdditionalWebinarData env (q_webinar_id queueItem)
                                 (q_webinar_type queueItem);
                  status = determineWebinarStatus (toTime env) (clock w2) webinarDetails
                             (q_webinar_type queueItem)
              in case webinarData env (clock w2) webinarDetails additional status
                        (q_webinar_type queueItem) connectionId of
                   Inl e \<Rightarrow> failWebinar w2 queueItem syncId e
                 | Inr row \<Rightarrow>
                     (case upsert_error env row of
                        Some e \<Rightarrow> failWebinar w2 queueItem syncId e
                      | None \<Rightarrow>
                          (let w3 = w2\<lparr>zoom_webinars := upsert (zoom_webinars w2) row\<rparr>;
                               w4 = update_queue_row w3 (q_id queueItem)
                                      (\<lambda>r. r\<lparr>q_processing_status := ''completed'',
                                              q_completed_at := Some (clock w3)\<rparr>);
                               w5 = broadcastProgress w4 syncId ''webinar''
                                      (ProcessedWebinar (wd_topic webinarDetails)
                                         (q_webinar_id queueItem) status) None
                           in (None, w5)))))"

text \<open>
  The \<open>for\<close> loop over \<open>queuedItems\<close>, with its counters.
\<close>

fun drainQueue ::
  "environment \<Rightarrow> jsval \<Rightarrow> jsval \<Rightarrow> nat \<Rightarrow> queue_row list \<Rightarrow> nat \<Rightarrow> nat \<Rightarrow> world
     \<Rightarrow> world \<times> nat \<times> nat" where
  "drainQueue env syncId connectionId totalCount [] processedCount failedCount w =
     (w, processedCount, failedCount)"
| "drainQueue env syncId connectionId totalCount (item # items) processedCount failedCount w =
     (case processWebinar env w item syncId connectionId of
        (None, w1) \<Rightarrow>
          (let processedCount' = processedCount + 1;
               percentage = 15 + (real processedCount' / real totalCount) * 80;
               w2 = broadcastProgress w1 syncId ''progress''
                      (ProcessingWebinars processedCount' totalCount) (Some percentage);
               w3 = w2\<lparr>sync_state :=
                      map (\<lambda>s. if ss_sync_id s = syncId \<and> ss_state_type s = ''webinar_details''
                                then s\<lparr>ss_processed_items := processedCount',
                                       ss_last_processed_item := q_webinar_id item\<rparr>
                                else s) (sync_state w2)\<rparr>
           in drainQueue env syncId connectionId totalCount items processedCount' failedCount w3)
      | (Some e, w1) \<Rightarrow>
          drainQueue env syncId connectionId totalCount items processedCount (failedCount + 1) w1)"

section \<open>The queue-based sync: the request handler\<close>

text \<open>Initialize or resume (lines 734 to 773): the sync id, or the error thrown.\<close>

definition initializeSync ::
  "environment \<Rightarrow> world \<Rightarrow> sync_request \<Rightarrow> (string + jsval) \<times> world" where
  "initializeSync env w body =
     (let resumeSyncId = rq_resumeSyncId body;
          syncId = resumeSyncId;
          w1 = (if truthy resumeSyncId
                then (case filter (\<lambda>s. ss_sync_id s = resumeSyncId) (sync_state w) of
                        [existingState] \<Rightarrow> broadcastProgress w syncId ''status'' Resuming None
                      | _ \<Rightarrow> w)
                else w)
      in if \<not> truthy syncId
         then (case new_sync_log_id env of
                 None \<Rightarrow> (Inl ''Failed to create sync log'', w1)
               | Some newId \<Rightarrow>
                   (let w2 = w1\<lparr>zoom_sync_logs := zoom_sync_logs w1 @
                                 [\<lparr>sl_id = newId, sl_connection_id = rq_connectionId body,
                                   sl_status = ''running'', sl_started_at = clock w1,
                                   sl_ended_at = None,
                                   sl_sync_type = (if rq_syncMode body = JUndefined
                                                   then JStr ''full'' else rq_syncMode body),
                                   sl_webinars_synced = None\<rparr>]\<rparr>
                    in (Inr newId, broadcastProgress w2 newId ''status'' StartingNew None)))
         else (Inr syncId, w1))"

text \<open>Phase 1 (lines 790 to 867).\<close>

definition enumerateWebinars ::
  "environment \<Rightarrow> world \<Rightarrow> jsval \<Rightarrow> ((string + WebinarQueueItem list) \<times> world) option" where
  "enumerateWebinars env w syncId =
     (let w1 = broadcastProgress w syncId ''status'' FetchingLists (Some 0)
      in case fetchPages env Past syncId 0 [] JUndefined 0 w1 of
           None \<Rightarrow> None
         | Some (Inl e, w2) \<Rightarrow> Some (Inl e, w2)
         | Some (Inr pastWebinars, w2) \<Rightarrow>
             fetchPages env Upcoming syncId (length pastWebinars) pastWebinars JUndefined 0 w2)"

text \<open>
  Phase 2 (lines 869 to 908). \<open>queueItems\<close> is the array the code inserts, with the
  columns the store fills in: ids from \<open>firstId\<close> on, and the defaults.
\<close>

definition next_queue_id :: "queue_row list \<Rightarrow> nat" where
  "next_queue_id rows = foldr (\<lambda>r m. max (Suc (q_id r)) m) rows 0"

definition queueItems :: "jsval \<Rightarrow> int \<Rightarrow> nat \<Rightarrow> WebinarQueueItem list \<Rightarrow> queue_row list" where
  "queueItems syncId t firstId allWebinars =
     map (\<lambda>(index, item).
            \<lparr>q_id = firstId + index, q_sync_id = syncId, q_webinar_id = qi_webinar_id item,
             q_webinar_type = qi_webinar_type item, q_priority = 5, q_scheduled_at = t,
             q_processing_status = ''pending'', q_started_at = None, q_completed_at = None,
             q_error_message = None, q_retry_count = 0\<rparr>)
         (enumerate 0 allWebinars)"

definition queueWebinars ::
  "environment \<Rightarrow> world \<Rightarrow> jsval \<Rightarrow> jsval \<Rightarrow> WebinarQueueItem list \<Rightarrow> (string + unit) \<times> world" where
  "queueWebinars env w syncId connectionId allWebinars =
     (let w1 = broadcastProgress w syncId ''status'' (Queuing (length allWebinars)) (Some 15);
          inserted =
            (if allWebinars \<noteq> []
             then (case queue_insert_error env of
                     Some m \<Rightarrow> Inl (''Failed to queue webinars: '' @ m)
                   | None \<Rightarrow>
                       Inr (w1\<lparr>webinar_sync_queue := webinar_sync_queue w1 @
                               queueItems syncId (clock w1) (next_queue_id (webinar_sync_queue w1))
                                 allWebinars\<rparr>))
             else Inr w1)
      in case inserted of
           Inl e \<Rightarrow> (Inl e, w1)
         | Inr w2 \<Rightarrow>
             (Inr (),
              w2\<lparr>sync_state := upsert_sync_state env (sync_state w2)
                    \<lparr>ss_sync_id = syncId, ss_connection_id = connectionId,
                     ss_state_type = ''webinar_details'',
                     ss_total_items = length allWebinars, ss_processed_items = 0,
                     ss_last_processed_item = JUndefined\<rparr>\<rparr>))"

text \<open>
  Everything of the \<open>try\<close> block before phase 3 (lines 712 to 908): the error thrown,
  or the sync id, the connection id and the enumerated webinars with which the drain
  starts.
\<close>

definition prepare ::
  "environment \<Rightarrow> world \<Rightarrow> request
     \<Rightarrow> ((string + jsval \<times> jsval \<times> WebinarQueueItem list) \<times> world) option" where
  "prepare env w req =
     (if \<not> env_vars_present env then Some (Inl ''Missing required environment variables'', w)
      else (case rq_json req of
        Inl e \<Rightarrow> Some (Inl e, w)
      | Inr body \<Rightarrow>
          (if \<not> truthy (rq_connectionId body) then Some (Inl ''Connection ID is required'', w)
           else (case initializeSync env w body of
             (Inl e, w1) \<Rightarrow> Some (Inl e, w1)
           | (Inr syncId, w1) \<Rightarrow>
               (case credential env of
                  Inl e \<Rightarrow> Some (Inl e, w1)
                | Inr accessToken \<Rightarrow>
                    (case enumerateWebinars env w1 syncId of
                       None \<Rightarrow> None
                     | Some (Inl e, w2) \<Rightarrow> Some (Inl e, w2)
                     | Some (Inr allWebinars, w2) \<Rightarrow>
                         (case queueWebinars env w2 syncId (rq_connectionId body) allWebinars of
                            (Inl e, w3) \<Rightarrow> Some (Inl e, w3)
                          | (Inr u, w3) \<Rightarrow>
                              Some (Inr (syncId, rq_connectionId body, allWebinars), w3))))))))"

text \<open>
  Phase 3 (lines 910 to 960): the ordered select of the pending items of the run, and
  the drain.
\<close>

definition selectQueued :: "world \<Rightarrow> jsval \<Rightarrow> queue_row list" where
  "selectQueued w syncId =
     sort_key (\<lambda>r. - q_priority r)
       (sort_key q_scheduled_at
          (filter (\<lambda>r. q_sync_id r = syncId \<and> q_processing_status r = ''pending'')
             (webinar_sync_queue w)))"

definition processQueued :: "environment \<Rightarrow> world \<Rightarrow> jsval \<Rightarrow> jsval \<Rightarrow> world" where
  "processQueued env w syncId connectionId =
     (let queuedItems = selectQueued w syncId
      in if queuedItems \<noteq> []
         then fst (drainQueue env syncId connectionId (length queuedItems) queuedItems 0 0 w)
         else w)"

text \<open>Phase 4 (lines 962 to 999).\<close>

definition completeSync :: "world \<Rightarrow> jsval \<Rightarrow> WebinarQueueItem list \<Rightarrow> http_response \<times> world" where
  "completeSync w syncId allWebinars =
     (let w1 = w\<lparr>zoom_sync_logs :=
                  map (\<lambda>l. if sl_id l = syncId
                            then l\<lparr>sl_status := ''completed'', sl_ended_at := Some (clock w),
                                   sl_webinars_synced := Some (length allWebinars)\<rparr>
                            else l) (zoom_sync_logs w)\<rparr>;
          w2 = broadcastProgress w1 syncId ''status'' (SyncCompleted (length allWebinars))
                 (Some 100)
      in (\<lparr>rs_status = 200,
           rs_body = Some [(''success'', JBool True), (''syncId'', syncId),
                           (''webinarsSynced'', JNum (int (length allWebinars))),
                           (''message'', JStr ''Sync completed successfully'')]\<rparr>, w2))"

text \<open>
  The handler: the response and the state it leaves, \<open>None\<close> when it never answers.
  The last case is the outer \<open>catch\<close> block (lines 1001 to 1014).
\<close>

definition serve :: "environment \<Rightarrow> world \<Rightarrow> request \<Rightarrow> (http_response \<times> world) option" where
  "serve env w req =
     (if rq_method req = ''OPTIONS'' then Some (\<lparr>rs_status = 200, rs_body = None\<rparr>, w)
      else (case prepare env w req of
        None \<Rightarrow> None
      | Some (Inr (syncId, connectionId, allWebinars), w3) \<Rightarrow>
          Some (completeSync (processQueued env w3 syncId connectionId) syncId allWebinars)
      | Some (Inl e, w1) \<Rightarrow>
          Some (\<lparr>rs_status = 500,
                 rs_body = Some [(''error'',
                   JStr (if e \<noteq> [] then e else ''An error occurred during sync''))]\<rparr>, w1)))"

section \<open>Vocabulary of the statements and example inputs\<close>

text \<open>
  The detail requests a drain of \<open>items\<close> sends, the progress event the failure branch
  of \<open>processWebinar\<close> publishes, and the queue items one list page contributes.
\<close>

definition detailRequests :: "queue_row list \<Rightarrow> zoom_request list" where
  "detailRequests items = map (\<lambda>i. DetailRequest (q_webinar_id i) (q_webinar_type i)) items"

definition failed_event :: "jsval \<Rightarrow> queue_row \<Rightarrow> string \<Rightarrow> progress_update" where
  "failed_event syncId item e =
     \<lparr>pu_sync_id = syncId, pu_update_type = ''error'',
      pu_message = FailedToProcess (q_webinar_id item) e, pu_progress_percentage = None\<rparr>"

definition page_items :: "webinar_type \<Rightarrow> list_page \<Rightarrow> WebinarQueueItem list" where
  "page_items type page =
     map (\<lambda>ws. \<lparr>qi_webinar_id = js_or (ws_id ws) (ws_uuid ws), qi_webinar_type = type\<rparr>)
       (lp_webinars page)"

text \<open>
  A small account: three past webinars on one list page, no upcoming ones; the detail
  fetch of webinar 2 is answered with status 500; every other call succeeds.
\<close>

definition example_details :: "jsval \<Rightarrow> webinarDetails" where
  "example_details i =
     \<lparr>wd_id = i, wd_uuid = JUndefined, wd_topic = JStr ''Launch'', wd_start_time = JUndefined,
      wd_status = JStr ''waiting'', wd_created_at = JUndefined,
      wd_registrants_count = JUndefined, wd_participants_count = JUndefined,
      wd_avg_attendance_duration = JUndefined, wd_tracking_fields = JUndefined\<rparr>"

definition example_page :: "int list \<Rightarrow> list_page" where
  "example_page ids =
     \<lparr>lp_webinars = map (\<lambda>i. \<lparr>ws_id = JNum i, ws_uuid = JUndefined\<rparr>) ids,
      lp_next_page_token = JUndefined\<rparr>"

definition example_env :: environment where
  "example_env =
     \<lparr>env_vars_present = True, credential = Inr ''token'',
      new_sync_log_id = Some (JStr ''run-1''),
      list_endpoint = (\<lambda>type k tok. Ok (example_page (if type = Past then [1, 2, 3] else []))),
      detail_endpoint =
        (\<lambda>i type. if i = JNum 2 then NotOk 500 ''boom'' else Ok (example_details i)),
      registrants_endpoint = (\<lambda>i. Ok (JNum 7)),
      participants_endpoint =
        (\<lambda>i. Ok \<lparr>pb_participants = [Some 30, Some 61, None], pb_total_records = JUndefined\<rparr>),
      tracking_sources_endpoint = (\<lambda>i. Ok (JArr [])),
      polls_endpoint = (\<lambda>i. Ok (JArr [])),
      qa_endpoint = (\<lambda>i. Ok (JArr [])),
      queue_insert_error = None,
      upsert_error = (\<lambda>r. None),
      upsert_sync_state = (\<lambda>rows r. rows @ [r]),
      toTime = (\<lambda>v. None)\<rparr>"

definition empty_world :: world where
  "empty_world =
     \<lparr>zoom_sync_logs = [], webinar_sync_queue = [], sync_state = [], zoom_webinars = [],
      sync_progress_updates = [], zoom_requests = [], clock = 1000\<rparr>"

definition example_body :: sync_request where
  "example_body =
     \<lparr>rq_connectionId = JStr ''conn-1'', rq_syncMode = JUndefined, rq_resumeSyncId = JUndefined\<rparr>"

definition example_request :: request where
  "example_request = \<lparr>rq_method = ''POST'', rq_json = Inr example_body\<rparr>"

definition pending_row :: "nat \<Rightarrow> jsval \<Rightarrow> int \<Rightarrow> int \<Rightarrow> queue_row" where
  "pending_row i syncId webinar t =
     \<lparr>q_id = i, q_sync_id = syncId, q_webinar_id = JNum webinar, q_webinar_type = Past,
      q_priority = 5, q_scheduled_at = t, q_processing_status = ''pending'',
      q_started_at = None, q_completed_at = None, q_error_message = None, q_retry_count = 0\<rparr>"

text \<open>
  A list endpoint that answers every call with an empty page and a continuation token.
\<close>

definition endless_env :: environment where
  "endless_env =
     example_env\<lparr>list_endpoint :=
       (\<lambda>type k tok. Ok \<lparr>lp_webinars = [], lp_next_page_token = JStr ''next''\<rparr>)\<rparr>"

text \<open>
  An account whose credentials cannot be resolved (\<open>getZoomAccessToken\<close> throws), and a
  request whose body has no \<open>connectionId\<close>.
\<close>

definition no_connection_env :: environment where
  "no_connection_env = example_env\<lparr>credential := Inl ''Connection not found''\<rparr>"

definition request_without_connection :: request where
  "request_without_connection =
     \<lparr>rq_method = ''POST'', rq_json = Inr (example_body\<lparr>rq_connectionId := JUndefined\<rparr>)\<rparr>"

text \<open>
  A run \<open>run-0\<close> interrupted after it had queued ten past webinars and completed the
  first two: its sync log is still \<open>running\<close>, rows 1 and 2 of the queue are
  \<open>completed\<close>, rows 3 to 10 are \<open>pending\<close>, and its sync state is stored. The account
  still lists the same ten webinars; every detail fetch succeeds. The request resumes
  \<open>run-0\<close>.
\<close>

definition interrupted_row :: "nat \<Rightarrow> queue_row" where
  "interrupted_row i =
     (pending_row i (JStr ''run-0'') (int i) 500)
       \<lparr>q_processing_status := (if i \<le> 2 then ''completed'' else ''pending'')\<rparr>"

definition interrupted_world :: world where
  "interrupted_world =
     empty_world
       \<lparr>zoom_sync_logs :=
          [\<lparr>sl_id = JStr ''run-0'', sl_connection_id = JStr ''conn-1'', sl_status = ''running'',
            sl_started_at = 500, sl_ended_at = None, sl_sync_type = JStr ''full'',
            sl_webinars_synced = None\<rparr>],
        webinar_sync_queue := map interrupted_row [1, 2, 3, 4, 5, 6, 7, 8, 9, 10],
        sync_state :=
          [\<lparr>ss_sync_id = JStr ''run-0'', ss_connection_id = JStr ''conn-1'',
            ss_state_type = ''webinar_details'', ss_total_items = 10, ss_processed_items = 2,
            ss_last_processed_item = JNum 2\<rparr>]\<rparr>"

definition resume_env :: environment where
  "resume_env =
     example_env
       \<lparr>list_endpoint :=
          (\<lambda>type k tok.
             Ok (example_page (if type = Past then [1, 2, 3, 4, 5, 6, 7, 8, 9, 10] else []))),
        detail_endpoint := (\<lambda>i type. Ok (example_details i))\<rparr>"

definition resume_request :: request where
  "resume_request =
     \<lparr>rq_method = ''POST'', rq_json = Inr (example_body\<lparr>rq_resumeSyncId := JStr ''run-0''\<rparr>)\<rparr>"

text \<open>
  Two accounts whose auxiliary endpoints all fail: in the first every auxiliary call is
  answered with status 404, in the second every auxiliary call throws (the network is
  down). And a store with one pending queue row, for webinar 1.
\<close>

definition refusing_env :: environment where
  "refusing_env =
     example_env
       \<lparr>registrants_endpoint := (\<lambda>i. NotOk 404 ''not found''),
        participants_endpoint := (\<lambda>i. NotOk 404 ''not found''),
        tracking_sources_endpoint := (\<lambda>i. NotOk 404 ''not found''),
        polls_endpoint := (\<lambda>i. NotOk 404 ''not found''),
        qa_endpoint := (\<lambda>i. NotOk 404 ''not found'')\<rparr>"

definition offline_env :: environment where
  "offline_env =
     example_env
       \<lparr>registrants_endpoint := (\<lambda>i. Rejected ''offline''),
        participants_endpoint := (\<lambda>i. Rejected ''offline''),
        tracking_sources_endpoint := (\<lambda>i. Rejected ''offline''),
        polls_endpoint := (\<lambda>i. Rejected ''offline''),
        qa_endpoint := (\<lambda>i. Rejected ''offline'')\<rparr>"

definition one_pending_world :: world where
  "one_pending_world =
     empty_world\<lparr>webinar_sync_queue := [pending_row 1 (JStr ''run-1'') 1 1000]\<rparr>"

text \<open>
  An account whose detail endpoint answers every call with HTTP status 429.
\<close>

definition throttling_env :: environment where
  "throttling_env =
     example_env\<lparr>detail_endpoint := (\<lambda>i type. NotOk 429 ''Too Many Requests'')\<rparr>"
section \<open>Status derivation\<close>

lemma member_validStatuses: "(v \<in> set validStatuses) = (v \<in> allowed_statuses)"
  by (auto simp: validStatuses_def allowed_statuses_def)

lemma allowed_truthy: "v \<in> allowed_statuses \<Longrightarrow> truthy v"
  by (auto simp: allowed_statuses_def)

text \<open>
  C1. The derived status follows the four steps in order: kind \<open>past\<close> gives
  \<open>finished\<close> whatever the payload says; otherwise a start time strictly before the
  current instant gives \<open>finished\<close>; otherwise a reported status in
  \<open>{waiting, started, finished, scheduled}\<close> is returned unchanged; otherwise the
  result is \<open>scheduled\<close>.
\<close>

theorem determineWebinarStatus_four_steps:
  "(kind = Past \<longrightarrow> determineWebinarStatus parse now d kind = JStr ''finished'') \<and>
   (kind \<noteq> Past \<and> starts_before parse now d \<longrightarrow>
      determineWebinarStatus parse now d kind = JStr ''finished'') \<and>
   (kind \<noteq> Past \<and> \<not> starts_before parse now d \<and> wd_status d \<in> allowed_statuses \<longrightarrow>
      determineWebinarStatus parse now d kind = wd_status d) \<and>
   (kind \<noteq> Past \<and> \<not> starts_before parse now d \<and> wd_status d \<notin> allowed_statuses \<longrightarrow>
      determineWebinarStatus parse now d kind = JStr ''scheduled'')"
  using allowed_truthy [of "wd_status d"]
  by (auto simp: determineWebinarStatus_def starts_before_def member_validStatuses
           split: option.splits)

theorem determineWebinarStatus_four_steps_witness:
  "determineWebinarStatus (\<lambda>v. if v = JStr ''2020-01-01T00:00:00Z'' then Some 1577836800000 else
                                 if v = JStr ''2030-01-01T00:00:00Z'' then Some 1893456000000 else None)
      1700000000000
      \<lparr>wd_id = JNum 1, wd_uuid = JUndefined, wd_topic = JStr ''a'',
       wd_start_time = JStr ''2030-01-01T00:00:00Z'', wd_status = JStr ''waiting'',
       wd_created_at = JUndefined, wd_registrants_count = JUndefined,
       wd_participants_count = JUndefined, wd_avg_attendance_duration = JUndefined,
       wd_tracking_fields = JUndefined\<rparr> Past = JStr ''finished'' \<and>
   determineWebinarStatus (\<lambda>v. if v = JStr ''2020-01-01T00:00:00Z'' then Some 1577836800000 else
                                 if v = JStr ''2030-01-01T00:00:00Z'' then Some 1893456000000 else None)
      1700000000000
      \<lparr>wd_id = JNum 1, wd_uuid = JUndefined, wd_topic = JStr ''a'',
       wd_start_time = JStr ''2020-01-01T00:00:00Z'', wd_status = JStr ''waiting'',
       wd_created_at = JUndefined, wd_registrants_count = JUndefined,
       wd_participants_count = JUndefined, wd_avg_attendance_duration = JUndefined,
       wd_tracking_fields = JUndefined\<rparr> Upcoming = JStr ''finished'' \<and>
   determineWebinarStatus (\<lambda>v. if v = JStr ''2020-01-01T00:00:00Z'' then Some 1577836800000 else
                                 if v = JStr ''2030-01-01T00:00:00Z'' then Some 1893456000000 else None)
      1700000000000
      \<lparr>wd_id = JNum 1, wd_uuid = JUndefined, wd_topic = JStr ''a'',
       wd_start_time = JStr ''2030-01-01T00:00:00Z'', wd_status = JStr ''waiting'',
       wd_created_at = JUndefined, wd_registrants_count = JUndefined,
       wd_participants_count = JUndefined, wd_avg_attendance_duration = JUndefined,
       wd_tracking_fields = JUndefined\<rparr> Upcoming = JStr ''waiting'' \<and>
   determineWebinarStatus (\<lambda>v. if v = JStr ''2020-01-01T00:00:00Z'' then Some 1577836800000 else
                                 if v = JStr ''2030-01-01T00:00:00Z'' then Some 1893456000000 else None)
      1700000000000
      \<lparr>wd_id = JNum 1, wd_uuid = JUndefined, wd_topic = JStr ''a'',
       wd_start_time = JStr ''2030-01-01T00:00:00Z'', wd_status = JStr ''xyz'',
       wd_created_at = JUndefined, wd_registrants_count = JUndefined,
       wd_participants_count = JUndefined, wd_avg_attendance_duration = JUndefined,
       wd_tracking_fields = JUndefined\<rparr> Upcoming = JStr ''scheduled''"
  using
    determineWebinarStatus_four_steps
      [of Past "\<lambda>v. if v = JStr ''2020-01-01T00:00:00Z'' then Some 1577836800000 else
                    if v = JStr ''2030-01-01T00:00:00Z'' then Some 1893456000000 else None"
          1700000000000
          "\<lparr>wd_id = JNum 1, wd_uuid = JUndefined, wd_topic = JStr ''a'',
            wd_start_time = JStr ''2030-01-01T00:00:00Z'', wd_status = JStr ''waiting'',
            wd_created_at = JUndefined, wd_registrants_count = JUndefined,
            wd_participants_count = JUndefined, wd_avg_attendance_duration = JUndefined,
            wd_tracking_fields = JUndefined\<rparr>"]
    determineWebinarStatus_four_steps
      [of Upcoming "\<lambda>v. if v = JStr ''2020-01-01T00:00:00Z'' then Some 1577836800000 else
                    if v = JStr ''2030-01-01T00:00:00Z'' then Some 1893456000000 else None"
          1700000000000
          "\<lparr>wd_id = JNum 1, wd_uuid = JUndefined, wd_topic = JStr ''a'',
            wd_start_time = JStr ''2020-01-01T00:00:00Z'', wd_status = JStr ''waiting'',
            wd_created_at = JUndefined, wd_registrants_count = JUndefined,
            wd_participants_count = JUndefined, wd_avg_attendance_duration = JUndefined,
            wd_tracking_fields = JUndefined\<rparr>"]
    determineWebinarStatus_four_steps
      [of Upcoming "\<lambda>v. if v = JStr ''2020-01-01T00:00:00Z'' then Some 1577836800000 else
                    if v = JStr ''2030-01-01T00:00:00Z'' then Some 1893456000000 else None"
          1700000000000
          "\<lparr>wd_id = JNum 1, wd_uuid = JUndefined, wd_topic = JStr ''a'',
            wd_start_time = JStr ''2030-01-01T00:00:00Z'', wd_status = JStr ''waiting'',
            wd_created_at = JUndefined, wd_registrants_count = JUndefined,
            wd_participants_count = JUndefined, wd_avg_attendance_duration = JUndefined,
            wd_tracking_fields = JUndefined\<rparr>"]
    determineWebinarStatus_four_steps
      [of Upcoming "\<lambda>v. if v = JStr ''2020-01-01T00:00:00Z'' then Some 1577836800000 else
                    if v = JStr ''2030-01-01T00:00:00Z'' then Some 1893456000000 else None"
          1700000000000
          "\<lparr>wd_id = JNum 1, wd_uuid = JUndefined, wd_topic = JStr ''a'',
            wd_start_time = JStr ''2030-01-01T00:00:00Z'', wd_status = JStr ''xyz'',
            wd_created_at = JUndefined, wd_registrants_count = JUndefined,
            wd_participants_count = JUndefined, wd_avg_attendance_duration = JUndefined,
            wd_tracking_fields = JUndefined\<rparr>"]
  by (simp add: starts_before_def allowed_statuses_def)

section \<open>Idempotent upsert\<close>

lemma webinarData_key:
  "webinarData env t d a s ty cid = Inr r \<Longrightarrow>
   conflict_key r = (js_or (wd_id d) (wd_uuid d), cid)"
  by (auto simp: webinarData_def conflict_key_def split: if_splits option.splits)

lemma replace_keys:
  "map conflict_key (map (\<lambda>x. if conflict_key x = conflict_key r then r else x) rows) =
   map conflict_key rows"
  by (induction rows) auto

lemma replace_same_key:
  "distinct (map conflict_key rows) \<Longrightarrow> conflict_key r \<in> set (map conflict_key rows) \<Longrightarrow>
   filter (\<lambda>x. conflict_key x = conflict_key r)
     (map (\<lambda>x. if conflict_key x = conflict_key r then r else x) rows) = [r]"
proof (induction rows)
  case Nil
  then show ?case by simp
next
  case (Cons a rows)
  show ?case
  proof (cases "conflict_key a = conflict_key r")
    case True
    with Cons.prems have "conflict_key r \<notin> set (map conflict_key rows)"
      by auto
    then have "filter (\<lambda>x. conflict_key x = conflict_key r)
                 (map (\<lambda>x. if conflict_key x = conflict_key r then r else x) rows) = []"
      by (induction rows) auto
    with True show ?thesis by simp
  next
    case False
    with Cons show ?thesis by auto
  qed
qed

lemma replace_other_keys:
  "filter (\<lambda>x. conflict_key x \<noteq> conflict_key r)
     (map (\<lambda>x. if conflict_key x = conflict_key r then r else x) rows) =
   filter (\<lambda>x. conflict_key x \<noteq> conflict_key r) rows"
  by (induction rows) auto

lemma upsert_keys:
  "set (map conflict_key (upsert rows r)) = insert (conflict_key r) (set (map conflict_key rows))"
proof (cases "conflict_key r \<in> set (map conflict_key rows)")
  case True
  then show ?thesis
    unfolding upsert_def using replace_keys [of r rows] by auto
next
  case False
  then show ?thesis
    by (simp add: upsert_def)
qed

lemma upsert_distinct:
  "distinct (map conflict_key rows) \<Longrightarrow> distinct (map conflict_key (upsert rows r))"
proof (cases "conflict_key r \<in> set (map conflict_key rows)")
  case True
  assume "distinct (map conflict_key rows)"
  then have "distinct (map conflict_key
               (map (\<lambda>x. if conflict_key x = conflict_key r then r else x) rows))"
    by (simp only: replace_keys)
  with True show ?thesis
    by (simp only: upsert_def if_True)
next
  case False
  assume "distinct (map conflict_key rows)"
  with False show ?thesis
    by (simp add: upsert_def)
qed

lemma upsert_same_key:
  "distinct (map conflict_key rows) \<Longrightarrow>
   filter (\<lambda>x. conflict_key x = conflict_key r) (upsert rows r) = [r]"
proof (cases "conflict_key r \<in> set (map conflict_key rows)")
  case True
  assume "distinct (map conflict_key rows)"
  with True show ?thesis
    unfolding upsert_def using replace_same_key [of rows r] by simp
next
  case False
  then have "filter (\<lambda>x. conflict_key x = conflict_key r) rows = []"
    by (induction rows) auto
  with False show ?thesis
    by (simp add: upsert_def)
qed

lemma upsert_other_keys:
  "filter (\<lambda>x. conflict_key x \<noteq> conflict_key r) (upsert rows r) =
   filter (\<lambda>x. conflict_key x \<noteq> conflict_key r) rows"
  unfolding upsert_def using replace_other_keys [of r rows] by simp

lemma upsert_length_conflict:
  "conflict_key r \<in> set (map conflict_key rows) \<Longrightarrow> length (upsert rows r) = length rows"
  by (simp add: upsert_def)
section \<open>Rate limiter\<close>

lemma executeWithRateLimit_returns:
  "fst (fn k) = Returns v \<Longrightarrow>
   executeWithRateLimit timer parseInt fn k m t =
     Some (Inr v, recordCall (fst (waitForRateLimit timer m t)),
           snd (waitForRateLimit timer m t) + int (snd (fn k)))"
  by (subst executeWithRateLimit.simps) (simp add: Let_def)

lemma executeWithRateLimit_rethrows:
  "fst (fn k) = Throws e \<Longrightarrow> err_status e \<noteq> JNum 429 \<Longrightarrow>
   executeWithRateLimit timer parseInt fn k m t =
     Some (Inl e, fst (waitForRateLimit timer m t), snd (waitForRateLimit timer m t) + int (snd (fn k)))"
  by (subst executeWithRateLimit.simps) (simp add: Let_def)

lemma executeWithRateLimit_429:
  "fst (fn k) = Throws e \<Longrightarrow> err_status e = JNum 429 \<Longrightarrow>
   parseInt (js_or (err_retry_after e) (JStr ''60'')) = Some s \<Longrightarrow>
   executeWithRateLimit timer parseInt fn k m t =
     executeWithRateLimit timer parseInt fn (Suc k)
       ((fst (waitForRateLimit timer m t))
          \<lparr>retryAfter := Some (snd (waitForRateLimit timer m t) + int (snd (fn k)) + s * 1000)\<rparr>)
       (snd (waitForRateLimit timer m t) + int (snd (fn k)) + timer (Some (s * 1000)))"
  by (subst executeWithRateLimit.simps) (simp add: Let_def)

lemma executeWithRateLimit_429_nan:
  "fst (fn k) = Throws e \<Longrightarrow> err_status e = JNum 429 \<Longrightarrow>
   parseInt (js_or (err_retry_after e) (JStr ''60'')) = None \<Longrightarrow>
   executeWithRateLimit timer parseInt fn k m t =
     executeWithRateLimit timer parseInt fn (Suc k)
       ((fst (waitForRateLimit timer m t))\<lparr>retryAfter := None\<rparr>)
       (snd (waitForRateLimit timer m t) + int (snd (fn k)) + timer None)"
  by (subst executeWithRateLimit.simps) (simp add: Let_def)

lemma executeWithRateLimit_retries:
  "all_429 fn k n \<Longrightarrow> fst (fn (k + n)) = Returns v \<Longrightarrow>
   \<exists>m' t'. executeWithRateLimit timer parseInt fn k m t = Some (Inr v, recordCall m', t')"
proof (induction n arbitrary: k m t)
  case 0
  then show ?case
    using executeWithRateLimit_returns [of fn k v timer parseInt m t] by auto
next
  case (Suc n)
  from Suc.prems(1) obtain e where
    e: "fst (fn k) = Throws e" "err_status e = JNum 429"
    and rest: "all_429 fn (Suc k) n"
    by (auto split: outcome.splits)
  from Suc.prems(2) have v: "fst (fn (Suc k + n)) = Returns v" by simp
  show ?case
  proof (cases "parseInt (js_or (err_retry_after e) (JStr ''60''))")
    case None
    from Suc.IH [OF rest v] executeWithRateLimit_429_nan [of fn k e parseInt timer m t] e None
    show ?thesis by simp
  next
    case (Some s)
    from Suc.IH [OF rest v] executeWithRateLimit_429 [of fn k e parseInt s timer m t] e Some
    show ?thesis by simp
  qed
qed

lemma executeWithRateLimit_some_not_all_429:
  assumes "executeWithRateLimit timer parseInt fn k m t = Some r"
  shows "\<exists>j. \<forall>e. fst (fn j) = Throws e \<longrightarrow> err_status e \<noteq> JNum 429"
proof (rule executeWithRateLimit.raw_induct
    [where P = "\<lambda>timer parseInt fn k m t r. \<exists>j. \<forall>e. fst (fn j) = Throws e \<longrightarrow> err_status e \<noteq> JNum 429",
     OF _ assms])
  fix rec :: "(int option \<Rightarrow> int) \<Rightarrow> (jsval \<Rightarrow> int option) \<Rightarrow> (nat \<Rightarrow> 'a outcome \<times> nat) \<Rightarrow> nat
     \<Rightarrow> RateLimitManager \<Rightarrow> int \<Rightarrow> ((js_error + 'a) \<times> RateLimitManager \<times> int) option"
  fix timer parseInt fn k m t r
  assume IH: "\<And>timer parseInt fn k m t r. rec timer parseInt fn k m t = Some r \<Longrightarrow>
                \<exists>j. \<forall>e. fst (fn j) = Throws e \<longrightarrow> err_status e \<noteq> JNum 429"
  assume body:
    "(let m1 = fst (waitForRateLimit timer m t);
          t2 = snd (waitForRateLimit timer m t) + int (snd (fn k))
      in case fst (fn k) of
           Returns result \<Rightarrow> Some (Inr result, recordCall m1, t2)
         | Throws error \<Rightarrow>
             if err_status error = JNum 429
             then (case parseInt (js_or (err_retry_after error) (JStr ''60'')) of
                     None \<Rightarrow>
                       rec timer parseInt fn (Suc k) (m1\<lparr>retryAfter := None\<rparr>) (t2 + timer None)
                   | Some seconds \<Rightarrow>
                       rec timer parseInt fn (Suc k)
                         (m1\<lparr>retryAfter := Some (t2 + seconds * 1000)\<rparr>)
                         (t2 + timer (Some (seconds * 1000))))
             else Some (Inl error, m1, t2)) = Some r"
  show "\<exists>j. \<forall>e. fst (fn j) = Throws e \<longrightarrow> err_status e \<noteq> JNum 429"
  proof (cases "fst (fn k)")
    case (Returns v)
    then show ?thesis by (intro exI [of _ k]) simp
  next
    case (Throws e)
    show ?thesis
    proof (cases "err_status e = JNum 429")
      case True
      with Throws body obtain m' t' where "rec timer parseInt fn (Suc k) m' t' = Some r"
        by (auto simp: Let_def split: option.splits)
      then show ?thesis by (rule IH)
    next
      case False
      with Throws show ?thesis by (intro exI [of _ k]) simp
    qed
  qed
qed

lemma executeWithRateLimit_never_returns:
  assumes "\<forall>j. \<exists>e. fst (fn j) = Throws e \<and> err_status e = JNum 429"
  shows "executeWithRateLimit timer parseInt fn k m t = None"
proof (cases "executeWithRateLimit timer parseInt fn k m t")
  case None
  then show ?thesis .
next
  case (Some r)
  from executeWithRateLimit_some_not_all_429 [OF Some] assms show ?thesis
    by auto
qed

lemma executeWithRateLimit_without_status:
  "(\<forall>e. fst (fn k) = Throws e \<longrightarrow> err_status e = JUndefined) \<Longrightarrow>
   \<exists>m' t'. executeWithRateLimit timer parseInt fn k m t =
     Some (case fst (fn k) of Returns v \<Rightarrow> Inr v | Throws e \<Rightarrow> Inl e, m', t')"
  by (cases "fst (fn k)")
     (auto simp: executeWithRateLimit_returns executeWithRateLimit_rethrows)

section \<open>Pagination\<close>

lemma fetchWebinars_loop_calls:
  "pageCount < maxPages \<Longrightarrow>
   pageCount < snd (fetchWebinars_loop zoom allWebinars nextPageToken pageCount) \<and>
   snd (fetchWebinars_loop zoom allWebinars nextPageToken pageCount) \<le> maxPages"
proof (induction zoom allWebinars nextPageToken pageCount rule: fetchWebinars_loop.induct)
  case (1 zoom allWebinars nextPageToken pageCount)
  show ?case
  proof (cases "zoom (pageCount + 1) nextPageToken")
    case (Rejected m)
    with "1.prems" show ?thesis by simp
  next
    case (NotOk status errorText)
    with "1.prems" show ?thesis by simp
  next
    case (Ok data)
    show ?thesis
    proof (cases "truthy (js_or (lp_next_page_token data) (JStr '''')) \<and> pageCount + 1 < maxPages")
      case True
      with Ok "1.IH" [OF Ok refl refl] have
        "pageCount + 1 < snd (fetchWebinars_loop zoom allWebinars nextPageToken pageCount) \<and>
         snd (fetchWebinars_loop zoom allWebinars nextPageToken pageCount) \<le> maxPages"
        by (simp add: Let_def)
      then show ?thesis by simp
    next
      case False
      with Ok "1.prems" show ?thesis by (auto simp: Let_def)
    qed
  qed
qed

lemma fetchWebinars_loop_all_tokens:
  "\<forall>k tok. \<exists>page. zoom k tok = Ok page \<and> truthy (lp_next_page_token page) \<Longrightarrow>
   pageCount < maxPages \<Longrightarrow>
   snd (fetchWebinars_loop zoom allWebinars nextPageToken pageCount) = maxPages \<and>
   (\<exists>ws. fst (fetchWebinars_loop zoom allWebinars nextPageToken pageCount) = Inr ws)"
proof (induction zoom allWebinars nextPageToken pageCount rule: fetchWebinars_loop.induct)
  case (1 zoom allWebinars nextPageToken pageCount)
  from "1.prems"(1) obtain data where
    data: "zoom (pageCount + 1) nextPageToken = Ok data" "truthy (lp_next_page_token data)"
    by blast
  then have tok: "truthy (js_or (lp_next_page_token data) (JStr []))"
    by (simp add: js_or_def)
  show ?case
  proof (cases "pageCount + 1 < maxPages")
    case True
    with data tok "1.IH" [OF data(1) refl refl _ "1.prems"(1)] show ?thesis
      by (simp add: Let_def)
  next
    case False
    with data "1.prems"(2) show ?thesis
      by (simp add: Let_def)
  qed
qed

lemma fetchWebinars_at_most_maxPages: "snd (fetchWebinars zoom) \<le> 10"
  using fetchWebinars_loop_calls [of 0 zoom "[]" "JStr []"]
  by (simp add: fetchWebinars_def maxPages_def)

lemma fetchWebinars_all_tokens:
  "\<forall>k tok. \<exists>page. zoom k tok = Ok page \<and> truthy (lp_next_page_token page) \<Longrightarrow>
   snd (fetchWebinars zoom) = 10 \<and> (\<exists>ws. fst (fetchWebinars zoom) = Inr ws)"
  using fetchWebinars_loop_all_tokens [of zoom 0 "[]" "JStr []"]
  by (simp add: fetchWebinars_def maxPages_def)

lemma fetchPages_some_no_token:
  assumes "fetchPages env type syncId upcomingStart allWebinars tok pageCount w = Some r"
  shows "\<exists>k tok. \<forall>page. list_endpoint env type k tok = Ok page \<longrightarrow>
           \<not> truthy (lp_next_page_token page)"
proof (rule fetchPages.raw_induct
    [where P = "\<lambda>env type syncId upcomingStart allWebinars tok pageCount w r.
                  \<exists>k tok. \<forall>page. list_endpoint env type k tok = Ok page \<longrightarrow>
                    \<not> truthy (lp_next_page_token page)",
     OF _ assms])
  fix rec :: "environment \<Rightarrow> webinar_type \<Rightarrow> jsval \<Rightarrow> nat \<Rightarrow> WebinarQueueItem list \<Rightarrow> jsval \<Rightarrow> nat
     \<Rightarrow> world \<Rightarrow> ((string + WebinarQueueItem list) \<times> world) option"
  fix env type syncId upcomingStart allWebinars nextPageToken pageCount w r
  assume IH: "\<And>env type syncId upcomingStart allWebinars tok pageCount w r.
      rec env type syncId upcomingStart allWebinars tok pageCount w = Some r \<Longrightarrow>
      \<exists>k tok. \<forall>page. list_endpoint env type k tok = Ok page \<longrightarrow>
        \<not> truthy (lp_next_page_token page)"
  assume body:
    "(let w1 = w\<lparr>zoom_requests := zoom_requests w @ [ListRequest type nextPageToken]\<rparr>
      in case fetchWebinarList env type (pageCount + 1) nextPageToken of
           Inl e \<Rightarrow> Some (Inl e, w1)
         | Inr page \<Rightarrow>
             (let allWebinars' = allWebinars @
                    map (\<lambda>ws. \<lparr>qi_webinar_id = js_or (ws_id ws) (ws_uuid ws),
                                 qi_webinar_type = type\<rparr>) (lp_webinars page);
                  w2 = broadcastProgress w1 syncId ''progress''
                         (FetchingPage type (pageCount + 1) (length allWebinars' - upcomingStart))
                         (Some (if type = Past then 5 else 10))
              in if truthy (lp_next_page_token page)
                 then rec env type syncId upcomingStart allWebinars'
                        (lp_next_page_token page) (pageCount + 1) w2
                 else Some (Inr allWebinars', w2))) = Some r"
  show "\<exists>k tok. \<forall>page. list_endpoint env type k tok = Ok page \<longrightarrow>
          \<not> truthy (lp_next_page_token page)"
  proof (cases "\<exists>page. list_endpoint env type (pageCount + 1) nextPageToken = Ok page \<and>
                  truthy (lp_next_page_token page)")
    case True
    then obtain page where
      page: "list_endpoint env type (pageCount + 1) nextPageToken = Ok page"
            "truthy (lp_next_page_token page)"
      by blast
    with body obtain a t p w' where "rec env type syncId upcomingStart a t p w' = Some r"
      by (auto simp: Let_def fetchWebinarList_def)
    then show ?thesis by (rule IH)
  next
    case False
    then show ?thesis by blast
  qed
qed

lemma fetchPages_never_ends:
  assumes "\<forall>k tok. \<exists>page. list_endpoint env type k tok = Ok page \<and>
             truthy (lp_next_page_token page)"
  shows "fetchPages env type syncId upcomingStart allWebinars tok pageCount w = None"
proof (cases "fetchPages env type syncId upcomingStart allWebinars tok pageCount w")
  case None
  then show ?thesis .
next
  case (Some r)
  from fetchPages_some_no_token [OF Some] assms show ?thesis
    by (metis http.inject(3))
qed

section \<open>The drain: effects of processing the queue\<close>

lemmas pw_defs = processWebinar_def failWebinar_def update_queue_row_def broadcastProgress_def Let_def

lemma processWebinar_requests:
  "zoom_requests (snd (processWebinar env w item syncId cid)) =
   zoom_requests w @ [DetailRequest (q_webinar_id item) (q_webinar_type item)]"
  by (simp add: pw_defs split: sum.splits option.splits)

lemma processWebinar_clock: "clock (snd (processWebinar env w item syncId cid)) = clock w"
  by (simp add: pw_defs split: sum.splits option.splits)

lemma processWebinar_logs:
  "zoom_sync_logs (snd (processWebinar env w item syncId cid)) = zoom_sync_logs w"
  by (simp add: pw_defs split: sum.splits option.splits)

lemma processWebinar_queue_ids:
  "map q_id (webinar_sync_queue (snd (processWebinar env w item syncId cid))) =
   map q_id (webinar_sync_queue w)"
  by (simp add: pw_defs comp_def split: sum.splits option.splits)

lemma processWebinar_queue_other:
  "r \<in> set (webinar_sync_queue w) \<Longrightarrow> q_id r \<noteq> q_id item \<Longrightarrow>
   r \<in> set (webinar_sync_queue (snd (processWebinar env w item syncId cid)))"
  by (auto simp: pw_defs image_iff split: sum.splits option.splits)

lemma processWebinar_progress_mono:
  "set (sync_progress_updates w) \<subseteq>
   set (sync_progress_updates (snd (processWebinar env w item syncId cid)))"
  by (auto simp: pw_defs split: sum.splits option.splits)

lemma processWebinar_outcome_clock:
  "clock w = clock w' \<Longrightarrow>
   fst (processWebinar env w item syncId cid) = fst (processWebinar env w' item syncId cid)"
  by (simp add: pw_defs split: sum.splits option.splits)

lemma processWebinar_failed_row:
  "fst (processWebinar env w item syncId cid) = Some e \<Longrightarrow>
   r \<in> set (webinar_sync_queue w) \<Longrightarrow> q_id r = q_id item \<Longrightarrow>
   r\<lparr>q_processing_status := ''failed'', q_started_at := Some (clock w),
     q_error_message := Some e, q_retry_count := q_retry_count item + 1\<rparr>
     \<in> set (webinar_sync_queue (snd (processWebinar env w item syncId cid)))"
  by (auto simp: pw_defs image_iff split: sum.splits option.splits intro!: bexI [of _ r])

lemma processWebinar_failed_event:
  "fst (processWebinar env w item syncId cid) = Some e \<Longrightarrow>
   failed_event syncId item e
     \<in> set (sync_progress_updates (snd (processWebinar env w item syncId cid)))"
  by (auto simp: pw_defs failed_event_def split: sum.splits option.splits)

lemma processWebinar_detail_failure:
  "fetchWebinarDetails env (q_webinar_id item) (q_webinar_type item) = Inl e \<Longrightarrow>
   fst (processWebinar env w item syncId cid) = Some e"
  by (simp add: pw_defs)

lemma drainQueue_requests:
  "zoom_requests (fst (drainQueue env syncId cid n items pc fc w)) =
   zoom_requests w @ detailRequests items"
proof (induction items arbitrary: pc fc w)
  case Nil
  then show ?case by (simp add: detailRequests_def)
next
  case (Cons item items)
  show ?case
    using processWebinar_requests [of env w item syncId cid]
    by (cases "processWebinar env w item syncId cid")
       (auto simp: Cons.IH detailRequests_def broadcastProgress_def Let_def split: option.splits)
qed

lemma drainQueue_clock: "clock (fst (drainQueue env syncId cid n items pc fc w)) = clock w"
proof (induction items arbitrary: pc fc w)
  case Nil
  then show ?case by simp
next
  case (Cons item items)
  show ?case
    using processWebinar_clock [of env w item syncId cid]
    by (cases "processWebinar env w item syncId cid")
       (auto simp: Cons.IH broadcastProgress_def Let_def split: option.splits)
qed

lemma drainQueue_logs:
  "zoom_sync_logs (fst (drainQueue env syncId cid n items pc fc w)) = zoom_sync_logs w"
proof (induction items arbitrary: pc fc w)
  case Nil
  then show ?case by simp
next
  case (Cons item items)
  show ?case
    using processWebinar_logs [of env w item syncId cid]
    by (cases "processWebinar env w item syncId cid")
       (auto simp: Cons.IH broadcastProgress_def Let_def split: option.splits)
qed

lemma drainQueue_queue_ids:
  "map q_id (webinar_sync_queue (fst (drainQueue env syncId cid n items pc fc w))) =
   map q_id (webinar_sync_queue w)"
proof (induction items arbitrary: pc fc w)
  case Nil
  then show ?case by simp
next
  case (Cons item items)
  show ?case
    using processWebinar_queue_ids [of env w item syncId cid]
    by (cases "processWebinar env w item syncId cid")
       (auto simp: Cons.IH broadcastProgress_def Let_def split: option.splits)
qed

lemma drainQueue_queue_other:
  "r \<in> set (webinar_sync_queue w) \<Longrightarrow> q_id r \<notin> q_id ` set items \<Longrightarrow>
   r \<in> set (webinar_sync_queue (fst (drainQueue env syncId cid n items pc fc w)))"
proof (induction items arbitrary: pc fc w)
  case Nil
  then show ?case by simp
next
  case (Cons item items)
  from Cons.prems have r: "r \<in> set (webinar_sync_queue (snd (processWebinar env w item syncId cid)))"
    by (intro processWebinar_queue_other) auto
  from Cons.prems have rest: "q_id r \<notin> q_id ` set items" by auto
  show ?case
    using r rest
    by (cases "processWebinar env w item syncId cid")
       (auto simp: broadcastProgress_def Let_def split: option.splits intro!: Cons.IH)
qed

lemma drainQueue_progress_mono:
  "set (sync_progress_updates w) \<subseteq>
   set (sync_progress_updates (fst (drainQueue env syncId cid n items pc fc w)))"
proof (induction items arbitrary: pc fc w)
  case Nil
  then show ?case by simp
next
  case (Cons item items)
  have IH: "x \<in> set (sync_progress_updates w') \<Longrightarrow>
            x \<in> set (sync_progress_updates (fst (drainQueue env syncId cid n items pc' fc' w')))"
    for x w' pc' fc'
    using Cons.IH by blast
  show ?case
    using processWebinar_progress_mono [of w env item syncId cid]
    by (cases "processWebinar env w item syncId cid")
       (auto simp: broadcastProgress_def Let_def split: option.splits intro!: IH)
qed

lemma drainQueue_failed_event:
  "x \<in> set items \<Longrightarrow> fst (processWebinar env w x syncId cid) = Some e \<Longrightarrow>
   failed_event syncId x e
     \<in> set (sync_progress_updates (fst (drainQueue env syncId cid n items pc fc w)))"
proof (induction items arbitrary: pc fc w)
  case Nil
  then show ?case by simp
next
  case (Cons item items)
  obtain res w1 where pw: "processWebinar env w item syncId cid = (res, w1)"
    by (cases "processWebinar env w item syncId cid")
  define w2 where "w2 = (case res of None \<Rightarrow>
      (broadcastProgress w1 syncId ''progress'' (ProcessingWebinars (Suc pc) n)
         (Some (15 + (real (Suc pc) / real n) * 80)))
        \<lparr>sync_state := map (\<lambda>s. if ss_sync_id s = syncId \<and> ss_state_type s = ''webinar_details''
                                then s\<lparr>ss_processed_items := Suc pc,
                                       ss_last_processed_item := q_webinar_id item\<rparr>
                                else s)
             (sync_state (broadcastProgress w1 syncId ''progress'' (ProcessingWebinars (Suc pc) n)
                (Some (15 + (real (Suc pc) / real n) * 80))))\<rparr>
    | Some e' \<Rightarrow> w1)"
  have step: "fst (drainQueue env syncId cid n (item # items) pc fc w) =
              fst (drainQueue env syncId cid n items
                     (case res of None \<Rightarrow> Suc pc | Some e' \<Rightarrow> pc)
                     (case res of None \<Rightarrow> fc | Some e' \<Rightarrow> Suc fc) w2)"
    by (simp add: pw w2_def Let_def split: option.splits)
  have clk: "clock w2 = clock w"
    using processWebinar_clock [of env w item syncId cid]
    by (simp add: pw w2_def broadcastProgress_def split: option.splits)
  have mono: "set (sync_progress_updates w1) \<subseteq> set (sync_progress_updates w2)"
    by (auto simp: w2_def broadcastProgress_def split: option.splits)
  show ?case
  proof (cases "x = item")
    case True
    with Cons.prems(2) pw have "failed_event syncId x e \<in> set (sync_progress_updates w1)"
      using processWebinar_failed_event [of env w item syncId cid e] by simp
    with mono have "failed_event syncId x e \<in> set (sync_progress_updates w2)" by blast
    with drainQueue_progress_mono show ?thesis
      unfolding step by blast
  next
    case False
    with Cons.prems(1) have "x \<in> set items" by simp
    moreover have "fst (processWebinar env w2 x syncId cid) = Some e"
      using Cons.prems(2) processWebinar_outcome_clock [OF clk, of env x syncId cid] by simp
    ultimately show ?thesis
      unfolding step by (rule Cons.IH)
  qed
qed

lemma drainQueue_step:
  obtains pc' fc' w2 where
    "fst (drainQueue env syncId cid n (item # items) pc fc w) =
     fst (drainQueue env syncId cid n items pc' fc' w2)"
    "clock w2 = clock w"
    "webinar_sync_queue w2 = webinar_sync_queue (snd (processWebinar env w item syncId cid))"
proof (cases "processWebinar env w item syncId cid")
  case (Pair res w1)
  show ?thesis
  proof (cases res)
    case None
    let ?w2 = "(broadcastProgress w1 syncId ''progress'' (ProcessingWebinars (Suc pc) n)
         (Some (15 + (real (Suc pc) / real n) * 80)))
        \<lparr>sync_state := map (\<lambda>s. if ss_sync_id s = syncId \<and> ss_state_type s = ''webinar_details''
                                then s\<lparr>ss_processed_items := Suc pc,
                                       ss_last_processed_item := q_webinar_id item\<rparr>
                                else s)
             (sync_state (broadcastProgress w1 syncId ''progress'' (ProcessingWebinars (Suc pc) n)
                (Some (15 + (real (Suc pc) / real n) * 80))))\<rparr>"
    from None Pair processWebinar_clock [of env w item syncId cid] show ?thesis
      by (intro that [of "Suc pc" fc ?w2]) (simp_all add: Let_def broadcastProgress_def)
  next
    case (Some e)
    with Pair processWebinar_clock [of env w item syncId cid] show ?thesis
      by (intro that [of pc "Suc fc" w1]) simp_all
  qed
qed

lemma drainQueue_failed_row:
  "distinct (map q_id items) \<Longrightarrow> x \<in> set items \<Longrightarrow>
   fst (processWebinar env w x syncId cid) = Some e \<Longrightarrow>
   r \<in> set (webinar_sync_queue w) \<Longrightarrow> q_id r = q_id x \<Longrightarrow>
   \<exists>r'\<in>set (webinar_sync_queue (fst (drainQueue env syncId cid n items pc fc w))).
      q_id r' = q_id x \<and> q_processing_status r' = ''failed'' \<and>
      q_error_message r' = Some e \<and> q_retry_count r' = q_retry_count x + 1"
proof (induction items arbitrary: pc fc w r)
  case Nil
  then show ?case by simp
next
  case (Cons item items)
  obtain pc' fc' w2 where
    step: "fst (drainQueue env syncId cid n (item # items) pc fc w) =
           fst (drainQueue env syncId cid n items pc' fc' w2)"
    and clk: "clock w2 = clock w"
    and q: "webinar_sync_queue w2 =
            webinar_sync_queue (snd (processWebinar env w item syncId cid))"
    by (rule drainQueue_step)
  show ?case
  proof (cases "x = item")
    case True
    let ?r' = "r\<lparr>q_processing_status := ''failed'', q_started_at := Some (clock w),
                  q_error_message := Some e, q_retry_count := q_retry_count item + 1\<rparr>"
    from True Cons.prems have "?r' \<in> set (webinar_sync_queue w2)"
      unfolding q by (intro processWebinar_failed_row) simp_all
    moreover from True Cons.prems have "q_id ?r' \<notin> q_id ` set items" by auto
    ultimately have
      "?r' \<in> set (webinar_sync_queue (fst (drainQueue env syncId cid n items pc' fc' w2)))"
      by (rule drainQueue_queue_other)
    with True Cons.prems(5) show ?thesis
      unfolding step by (intro bexI [of _ ?r']) simp_all
  next
    case False
    with Cons.prems have x: "x \<in> set items" and d: "distinct (map q_id items)" by simp_all
    from Cons.prems(4) have "q_id r \<in> set (map q_id (webinar_sync_queue w))" by simp
    with Cons.prems(5) have "q_id x \<in> set (map q_id (webinar_sync_queue w2))"
      unfolding q processWebinar_queue_ids by simp
    then obtain r1 where r1: "r1 \<in> set (webinar_sync_queue w2)" "q_id r1 = q_id x" by auto
    have f: "fst (processWebinar env w2 x syncId cid) = Some e"
      using Cons.prems(3) processWebinar_outcome_clock [OF clk, of env x syncId cid] by simp
    show ?thesis
      unfolding step by (rule Cons.IH [OF d x f r1])
  qed
qed

lemma selectQueued_set:
  "set (selectQueued w syncId) =
   {r \<in> set (webinar_sync_queue w). q_sync_id r = syncId \<and> q_processing_status r = ''pending''}"
  by (auto simp: selectQueued_def)

lemma selectQueued_distinct:
  assumes "distinct (map q_id (webinar_sync_queue w))"
  shows "distinct (map q_id (selectQueued w syncId))"
proof -
  let ?f = "filter (\<lambda>r. q_sync_id r = syncId \<and> q_processing_status r = ''pending'')
              (webinar_sync_queue w)"
  from assms have "distinct (map q_id ?f)" by (rule distinct_map_filter)
  then have "distinct ?f" "inj_on q_id (set ?f)" by (simp_all add: distinct_map)
  then show ?thesis
    by (simp add: selectQueued_def distinct_map)
qed

lemma processQueued_eq:
  "processQueued env w syncId cid =
   fst (drainQueue env syncId cid (length (selectQueued w syncId)) (selectQueued w syncId) 0 0 w)"
  by (simp add: processQueued_def Let_def)

lemma fetchPages_frame:
  assumes "fetchPages env type syncId upcomingStart allWebinars tok pageCount w = Some r"
  shows "webinar_sync_queue (snd r) = webinar_sync_queue w \<and> clock (snd r) = clock w \<and>
         zoom_sync_logs (snd r) = zoom_sync_logs w"
proof (rule fetchPages.raw_induct
    [where P = "\<lambda>env type syncId upcomingStart allWebinars tok pageCount w r.
                  webinar_sync_queue (snd r) = webinar_sync_queue w \<and> clock (snd r) = clock w \<and>
                  zoom_sync_logs (snd r) = zoom_sync_logs w",
     OF _ assms])
  fix rec :: "environment \<Rightarrow> webinar_type \<Rightarrow> jsval \<Rightarrow> nat \<Rightarrow> WebinarQueueItem list \<Rightarrow> jsval \<Rightarrow> nat
     \<Rightarrow> world \<Rightarrow> ((string + WebinarQueueItem list) \<times> world) option"
  fix env type syncId upcomingStart allWebinars nextPageToken pageCount w r
  assume IH: "\<And>env type syncId upcomingStart allWebinars tok pageCount w r.
      rec env type syncId upcomingStart allWebinars tok pageCount w = Some r \<Longrightarrow>
      webinar_sync_queue (snd r) = webinar_sync_queue w \<and> clock (snd r) = clock w \<and>
      zoom_sync_logs (snd r) = zoom_sync_logs w"
  assume body:
    "(let w1 = w\<lparr>zoom_requests := zoom_requests w @ [ListRequest type nextPageToken]\<rparr>
      in case fetchWebinarList env type (pageCount + 1) nextPageToken of
           Inl e \<Rightarrow> Some (Inl e, w1)
         | Inr page \<Rightarrow>
             (let allWebinars' = allWebinars @
                    map (\<lambda>ws. \<lparr>qi_webinar_id = js_or (ws_id ws) (ws_uuid ws),
                                 qi_webinar_type = type\<rparr>) (lp_webinars page);
                  w2 = broadcastProgress w1 syncId ''progress''
                         (FetchingPage type (pageCount + 1) (length allWebinars' - upcomingStart))
                         (Some (if type = Past then 5 else 10))
              in if truthy (lp_next_page_token page)
                 then rec env type syncId upcomingStart allWebinars'
                        (lp_next_page_token page) (pageCount + 1) w2
                 else Some (Inr allWebinars', w2))) = Some r"
  show "webinar_sync_queue (snd r) = webinar_sync_queue w \<and> clock (snd r) = clock w \<and>
        zoom_sync_logs (snd r) = zoom_sync_logs w"
  proof (cases "fetchWebinarList env type (pageCount + 1) nextPageToken")
    case (Inl e)
    with body show ?thesis by (auto simp: Let_def)
  next
    case (Inr page)
    show ?thesis
    proof (cases "truthy (lp_next_page_token page)")
      case True
      with Inr body IH show ?thesis
        by (fastforce simp: Let_def broadcastProgress_def)
    next
      case False
      with Inr body show ?thesis
        by (auto simp: Let_def broadcastProgress_def)
    qed
  qed
qed

lemma enumerateWebinars_frame:
  assumes "enumerateWebinars env w syncId = Some r"
  shows "webinar_sync_queue (snd r) = webinar_sync_queue w \<and> clock (snd r) = clock w \<and>
         zoom_sync_logs (snd r) = zoom_sync_logs w"
proof -
  let ?w1 = "broadcastProgress w syncId ''status'' FetchingLists (Some 0)"
  from assms obtain r1 where r1: "fetchPages env Past syncId 0 [] JUndefined 0 ?w1 = Some r1"
    by (auto simp: enumerateWebinars_def Let_def split: option.splits)
  from fetchPages_frame [OF r1] have f1:
    "webinar_sync_queue (snd r1) = webinar_sync_queue w \<and> clock (snd r1) = clock w \<and>
     zoom_sync_logs (snd r1) = zoom_sync_logs w"
    by (simp add: broadcastProgress_def)
  show ?thesis
  proof (cases "fst r1")
    case (Inl e)
    with assms r1 f1 show ?thesis
      by (cases r1) (auto simp: enumerateWebinars_def Let_def)
  next
    case (Inr past)
    with assms r1 have
      "fetchPages env Upcoming syncId (length past) past JUndefined 0 (snd r1) = Some r"
      by (cases r1) (auto simp: enumerateWebinars_def Let_def)
    from fetchPages_frame [OF this] f1 show ?thesis by simp
  qed
qed

lemma initializeSync_frame:
  "webinar_sync_queue (snd (initializeSync env w body)) = webinar_sync_queue w \<and>
   clock (snd (initializeSync env w body)) = clock w"
  by (auto simp: initializeSync_def Let_def broadcastProgress_def split: list.splits option.splits)

lemma queueItems_empty [simp]: "queueItems syncId t firstId [] = []"
  by (simp add: queueItems_def)

lemma queueWebinars_frame:
  "queueWebinars env w syncId cid allWebinars = (Inr u, w3) \<Longrightarrow>
   clock w3 = clock w \<and>
   zoom_sync_logs w3 = zoom_sync_logs w \<and>
   webinar_sync_queue w3 = webinar_sync_queue w @
     queueItems syncId (clock w) (next_queue_id (webinar_sync_queue w)) allWebinars"
  by (auto simp: queueWebinars_def Let_def broadcastProgress_def split: if_splits option.splits)

lemma prepare_success:
  assumes "prepare env w req = Some (Inr (syncId, cid, allWebinars), w3)"
  shows "\<exists>body w1 accessToken w2.
     env_vars_present env \<and> rq_json req = Inr body \<and> truthy (rq_connectionId body) \<and>
     cid = rq_connectionId body \<and> initializeSync env w body = (Inr syncId, w1) \<and>
     credential env = Inr accessToken \<and>
     enumerateWebinars env w1 syncId = Some (Inr allWebinars, w2) \<and>
     queueWebinars env w2 syncId cid allWebinars = (Inr (), w3)"
proof -
  from assms have ev: "env_vars_present env"
    by (auto simp: prepare_def split: if_splits)
  with assms obtain body where body: "rq_json req = Inr body"
    by (cases "rq_json req") (auto simp: prepare_def)
  with assms ev have cidt: "truthy (rq_connectionId body)"
    by (auto simp: prepare_def split: if_splits)
  obtain i w1 where init: "initializeSync env w body = (i, w1)"
    by (cases "initializeSync env w body")
  with assms ev body cidt obtain sid where sid: "i = Inr sid"
    by (cases i) (auto simp: prepare_def)
  with assms ev body cidt init obtain accessToken where tok: "credential env = Inr accessToken"
    by (cases "credential env") (auto simp: prepare_def)
  with assms ev body cidt init sid obtain r2 where en: "enumerateWebinars env w1 sid = Some r2"
    by (cases "enumerateWebinars env w1 sid") (auto simp: prepare_def)
  obtain a w2 where r2: "r2 = (a, w2)" by (cases r2)
  with assms ev body cidt init sid tok en obtain all where a: "a = Inr all"
    by (cases a) (auto simp: prepare_def)
  obtain q w3' where q: "queueWebinars env w2 sid (rq_connectionId body) all = (q, w3')"
    by (cases "queueWebinars env w2 sid (rq_connectionId body) all")
  with assms ev body cidt init sid tok en r2 a have
    "q = Inr () \<and> w3' = w3 \<and> sid = syncId \<and> cid = rq_connectionId body \<and> all = allWebinars"
    by (cases q) (auto simp: prepare_def)
  with ev body cidt init sid tok en r2 a q show ?thesis
    by auto
qed

lemma prepare_queue:
  assumes "prepare env w req = Some (Inr (syncId, cid, allWebinars), w3)"
  shows "clock w3 = clock w \<and>
         webinar_sync_queue w3 = webinar_sync_queue w @
           queueItems syncId (clock w) (next_queue_id (webinar_sync_queue w)) allWebinars"
proof -
  from prepare_success [OF assms] obtain body w1 w2 where
    i: "initializeSync env w body = (Inr syncId, w1)" and
    e: "enumerateWebinars env w1 syncId = Some (Inr allWebinars, w2)" and
    q: "queueWebinars env w2 syncId cid allWebinars = (Inr (), w3)"
    by blast
  from initializeSync_frame [of env w body] i enumerateWebinars_frame [OF e]
    queueWebinars_frame [OF q]
  show ?thesis by simp
qed

lemma serve_drains:
  "prepare env w req = Some (Inr (syncId, cid, allWebinars), w3) \<Longrightarrow>
   rq_method req \<noteq> ''OPTIONS'' \<Longrightarrow>
   serve env w req = Some (completeSync (processQueued env w3 syncId cid) syncId allWebinars)"
  by (simp add: serve_def)

lemma serve_fails:
  "prepare env w req = Some (Inl e, w1) \<Longrightarrow> rq_method req \<noteq> ''OPTIONS'' \<Longrightarrow>
   serve env w req =
     Some (\<lparr>rs_status = 500,
            rs_body = Some [(''error'',
              JStr (if e \<noteq> [] then e else ''An error occurred during sync''))]\<rparr>, w1)"
  by (simp add: serve_def)

lemma completeSync_frame:
  "webinar_sync_queue (snd (completeSync w syncId allWebinars)) = webinar_sync_queue w \<and>
   zoom_requests (snd (completeSync w syncId allWebinars)) = zoom_requests w \<and>
   set (sync_progress_updates w) \<subseteq>
     set (sync_progress_updates (snd (completeSync w syncId allWebinars))) \<and>
   rs_status (fst (completeSync w syncId allWebinars)) = 200"
  by (auto simp: completeSync_def Let_def broadcastProgress_def)

lemma completeSync_logs:
  "l \<in> set (zoom_sync_logs (snd (completeSync w syncId allWebinars))) \<Longrightarrow> sl_id l = syncId \<Longrightarrow>
   sl_status l = ''completed''"
proof -
  assume "l \<in> set (zoom_sync_logs (snd (completeSync w syncId allWebinars)))"
  then obtain x where x: "x \<in> set (zoom_sync_logs w)"
    and l: "l = (if sl_id x = syncId
                 then x\<lparr>sl_status := ''completed'', sl_ended_at := Some (clock w),
                        sl_webinars_synced := Some (length allWebinars)\<rparr>
                 else x)"
    by (auto simp: completeSync_def Let_def broadcastProgress_def)
  assume "sl_id l = syncId"
  with l show ?thesis
    by (cases "sl_id x = syncId") simp_all
qed

lemma next_queue_id_greater: "r \<in> set rows \<Longrightarrow> q_id r < next_queue_id rows"
  by (induction rows) (auto simp: next_queue_id_def)

lemma map_comp_fst: "map (\<lambda>p. g (fst p)) ys = map g (map fst ys)"
  by (induction ys) auto

lemma map_fst_enumerate_from:
  "map (\<lambda>p. g (fst p)) (enumerate k xs) = map g [k ..< k + length xs]"
  by (simp only: map_comp_fst map_fst_enumerate)

lemma queueItems_ids:
  "map q_id (queueItems syncId t firstId allWebinars) =
   map (\<lambda>i. firstId + i) [0 ..< length allWebinars]"
  using map_fst_enumerate_from [of "\<lambda>i. firstId + i" 0 allWebinars]
  by (simp add: queueItems_def case_prod_beta comp_def)

lemma prepare_distinct_ids:
  assumes "prepare env w req = Some (Inr (syncId, cid, allWebinars), w3)"
    and "distinct (map q_id (webinar_sync_queue w))"
  shows "distinct (map q_id (webinar_sync_queue w3))"
proof -
  let ?n = "next_queue_id (webinar_sync_queue w)"
  have ids: "map q_id (webinar_sync_queue w3) = map q_id (webinar_sync_queue w) @
       map (\<lambda>i. ?n + i) [0 ..< length allWebinars]"
    using prepare_queue [OF assms(1)] by (simp add: queueItems_ids)
  have new: "distinct (map (\<lambda>i. ?n + i) [0 ..< length allWebinars])"
    by (simp add: distinct_map inj_on_def)
  have old: "i < ?n" if "i \<in> set (map q_id (webinar_sync_queue w))" for i
    using that next_queue_id_greater [of _ "webinar_sync_queue w"] by auto
  have "set (map q_id (webinar_sync_queue w)) \<inter>
        set (map (\<lambda>i. ?n + i) [0 ..< length allWebinars]) = {}"
  proof (rule ccontr)
    assume "\<not> ?thesis"
    then obtain i where i: "i \<in> set (map q_id (webinar_sync_queue w))"
      and "i \<in> set (map (\<lambda>i. ?n + i) [0 ..< length allWebinars])"
      by blast
    then have "?n \<le> i" by auto
    with old [OF i] show False by simp
  qed
  with assms(2) new show ?thesis
    unfolding ids by (simp only: distinct_append)
qed

lemma processWebinar_completed_row:
  "fst (processWebinar env w item syncId cid) = None \<Longrightarrow>
   r \<in> set (webinar_sync_queue w) \<Longrightarrow> q_id r = q_id item \<Longrightarrow>
   r\<lparr>q_processing_status := ''completed'', q_started_at := Some (clock w),
     q_completed_at := Some (clock w)\<rparr>
     \<in> set (webinar_sync_queue (snd (processWebinar env w item syncId cid)))"
  by (auto simp: pw_defs image_iff split: sum.splits option.splits intro!: bexI [of _ r])

lemma drainQueue_completed_row:
  "distinct (map q_id items) \<Longrightarrow> x \<in> set items \<Longrightarrow>
   fst (processWebinar env w x syncId cid) = None \<Longrightarrow>
   r \<in> set (webinar_sync_queue w) \<Longrightarrow> q_id r = q_id x \<Longrightarrow>
   \<exists>r'\<in>set (webinar_sync_queue (fst (drainQueue env syncId cid n items pc fc w))).
      q_id r' = q_id x \<and> q_processing_status r' = ''completed''"
proof (induction items arbitrary: pc fc w r)
  case Nil
  then show ?case by simp
next
  case (Cons item items)
  obtain pc' fc' w2 where
    step: "fst (drainQueue env syncId cid n (item # items) pc fc w) =
           fst (drainQueue env syncId cid n items pc' fc' w2)"
    and clk: "clock w2 = clock w"
    and q: "webinar_sync_queue w2 =
            webinar_sync_queue (snd (processWebinar env w item syncId cid))"
    by (rule drainQueue_step)
  show ?case
  proof (cases "x = item")
    case True
    let ?r' = "r\<lparr>q_processing_status := ''completed'', q_started_at := Some (clock w),
                  q_completed_at := Some (clock w)\<rparr>"
    from True Cons.prems have "?r' \<in> set (webinar_sync_queue w2)"
      unfolding q by (intro processWebinar_completed_row) simp_all
    moreover from True Cons.prems have "q_id ?r' \<notin> q_id ` set items" by auto
    ultimately have
      "?r' \<in> set (webinar_sync_queue (fst (drainQueue env syncId cid n items pc' fc' w2)))"
      by (rule drainQueue_queue_other)
    with True Cons.prems(5) show ?thesis
      unfolding step by (intro bexI [of _ ?r']) simp_all
  next
    case False
    with Cons.prems have x: "x \<in> set items" and d: "distinct (map q_id items)" by simp_all
    from Cons.prems(4) have "q_id r \<in> set (map q_id (webinar_sync_queue w))" by simp
    with Cons.prems(5) have "q_id x \<in> set (map q_id (webinar_sync_queue w2))"
      unfolding q processWebinar_queue_ids by simp
    then obtain r1 where r1: "r1 \<in> set (webinar_sync_queue w2)" "q_id r1 = q_id x" by auto
    have f: "fst (processWebinar env w2 x syncId cid) = None"
      using Cons.prems(3) processWebinar_outcome_clock [OF clk, of env x syncId cid] by simp
    show ?thesis
      unfolding step by (rule Cons.IH [OF d x f r1])
  qed
qed

lemma sort_key_constant:
  "\<forall>x\<in>set xs. f x = c \<Longrightarrow> sort_key f xs = xs"
proof (induction xs)
  case Nil
  then show ?case by simp
next
  case (Cons x xs)
  then have "sort_key f xs = xs" by simp
  with Cons.prems show ?case
    by (cases xs) simp_all
qed

lemma fetchPages_last_page:
  assumes "list_endpoint env type (Suc pageCount) tok = Ok page"
    and "\<not> truthy (lp_next_page_token page)"
  shows "\<exists>w'. fetchPages env type syncId upcomingStart allWebinars tok pageCount w =
              Some (Inr (allWebinars @ page_items type page), w') \<and>
            zoom_requests w' = zoom_requests w @ [ListRequest type tok] \<and>
            zoom_sync_logs w' = zoom_sync_logs w"
  using assms
  by (subst fetchPages.simps)
     (simp add: Let_def fetchWebinarList_def page_items_def broadcastProgress_def)

lemma enumerateWebinars_single_pages:
  assumes "list_endpoint env Past 1 JUndefined = Ok past"
    and "\<not> truthy (lp_next_page_token past)"
    and "list_endpoint env Upcoming 1 JUndefined = Ok upcoming"
    and "\<not> truthy (lp_next_page_token upcoming)"
  shows "\<exists>w'. enumerateWebinars env w syncId =
              Some (Inr (page_items Past past @ page_items Upcoming upcoming), w') \<and>
            zoom_requests w' =
              zoom_requests w @ [ListRequest Past JUndefined, ListRequest Upcoming JUndefined] \<and>
            zoom_sync_logs w' = zoom_sync_logs w"
proof -
  let ?w1 = "broadcastProgress w syncId ''status'' FetchingLists (Some 0)"
  from assms(1,2) fetchPages_last_page [of env Past 0 JUndefined past syncId 0 "[]" ?w1]
  obtain w2 where
    p: "fetchPages env Past syncId 0 [] JUndefined 0 ?w1 = Some (Inr (page_items Past past), w2)"
    and r2: "zoom_requests w2 = zoom_requests w @ [ListRequest Past JUndefined]"
    and l2: "zoom_sync_logs w2 = zoom_sync_logs w"
    by (auto simp: broadcastProgress_def)
  from assms(3,4)
    fetchPages_last_page [of env Upcoming 0 JUndefined upcoming syncId
      "length (page_items Past past)" "page_items Past past" w2]
  obtain w3 where
    u: "fetchPages env Upcoming syncId (length (page_items Past past)) (page_items Past past)
          JUndefined 0 w2 =
        Some (Inr (page_items Past past @ page_items Upcoming upcoming), w3)"
    and r3: "zoom_requests w3 = zoom_requests w2 @ [ListRequest Upcoming JUndefined]"
    and l3: "zoom_sync_logs w3 = zoom_sync_logs w2"
    by auto
  from p u r2 r3 l2 l3 show ?thesis
    by (simp add: enumerateWebinars_def Let_def)
qed

lemma queueWebinars_frame_requests:
  "zoom_requests (snd (queueWebinars env w syncId cid allWebinars)) = zoom_requests w \<and>
   zoom_sync_logs (snd (queueWebinars env w syncId cid allWebinars)) = zoom_sync_logs w"
  by (auto simp: queueWebinars_def Let_def broadcastProgress_def split: option.splits)

lemma queueWebinars_succeeds:
  "queue_insert_error env = None \<Longrightarrow>
   fst (queueWebinars env w syncId cid allWebinars) = Inr ()"
  by (auto simp: queueWebinars_def Let_def)

lemma prepare_single_pages:
  assumes "env_vars_present env" and "rq_json req = Inr body"
    and "truthy (rq_connectionId body)"
    and "initializeSync env w body = (Inr syncId, w1)"
    and "credential env = Inr accessToken"
    and "list_endpoint env Past 1 JUndefined = Ok past"
    and "\<not> truthy (lp_next_page_token past)"
    and "list_endpoint env Upcoming 1 JUndefined = Ok upcoming"
    and "\<not> truthy (lp_next_page_token upcoming)"
    and "queue_insert_error env = None"
  shows "\<exists>w3. prepare env w req =
              Some (Inr (syncId, rq_connectionId body,
                      page_items Past past @ page_items Upcoming upcoming), w3) \<and>
            zoom_requests w3 =
              zoom_requests w1 @ [ListRequest Past JUndefined, ListRequest Upcoming JUndefined] \<and>
            zoom_sync_logs w3 = zoom_sync_logs w1"
proof -
  let ?all = "page_items Past past @ page_items Upcoming upcoming"
  from enumerateWebinars_single_pages [OF assms(6-9), of w1 syncId] obtain w2 where
    e: "enumerateWebinars env w1 syncId = Some (Inr ?all, w2)"
    and r: "zoom_requests w2 =
              zoom_requests w1 @ [ListRequest Past JUndefined, ListRequest Upcoming JUndefined]"
    and l: "zoom_sync_logs w2 = zoom_sync_logs w1"
    by blast
  obtain q w3 where q: "queueWebinars env w2 syncId (rq_connectionId body) ?all = (q, w3)"
    by (cases "queueWebinars env w2 syncId (rq_connectionId body) ?all")
  with queueWebinars_succeeds [OF assms(10), of w2 syncId "rq_connectionId body" ?all]
  have q': "queueWebinars env w2 syncId (rq_connectionId body) ?all = (Inr (), w3)"
    by simp
  from queueWebinars_frame_requests [of env w2 syncId "rq_connectionId body" ?all] q' r l
  have "zoom_requests w3 =
          zoom_requests w1 @ [ListRequest Past JUndefined, ListRequest Upcoming JUndefined]"
    and "zoom_sync_logs w3 = zoom_sync_logs w1"
    by simp_all
  moreover from assms(1-5) e q' have
    "prepare env w req = Some (Inr (syncId, rq_connectionId body, ?all), w3)"
    by (simp add: prepare_def)
  ultimately show ?thesis by blast
qed

lemma initializeSync_new:
  "\<not> truthy (rq_resumeSyncId body) \<Longrightarrow> new_sync_log_id env = Some newId \<Longrightarrow>
   \<exists>w1. initializeSync env w body = (Inr newId, w1) \<and> zoom_requests w1 = zoom_requests w \<and>
         map sl_id (zoom_sync_logs w1) = map sl_id (zoom_sync_logs w) @ [newId] \<and>
         map sl_status (zoom_sync_logs w1) = map sl_status (zoom_sync_logs w) @ [''running'']"
  by (simp add: initializeSync_def Let_def broadcastProgress_def)

lemma initializeSync_resume:
  "truthy (rq_resumeSyncId body) \<Longrightarrow>
   \<exists>w1. initializeSync env w body = (Inr (rq_resumeSyncId body), w1) \<and>
         zoom_requests w1 = zoom_requests w \<and> zoom_sync_logs w1 = zoom_sync_logs w"
  by (auto simp: initializeSync_def Let_def broadcastProgress_def split: list.splits)

lemma example_prepare:
  "\<exists>w3. prepare example_env empty_world example_request =
           Some (Inr (JStr ''run-1'', JStr ''conn-1'',
                   [\<lparr>qi_webinar_id = JNum 1, qi_webinar_type = Past\<rparr>,
                    \<lparr>qi_webinar_id = JNum 2, qi_webinar_type = Past\<rparr>,
                    \<lparr>qi_webinar_id = JNum 3, qi_webinar_type = Past\<rparr>]), w3) \<and>
         zoom_requests w3 = [ListRequest Past JUndefined, ListRequest Upcoming JUndefined] \<and>
         webinar_sync_queue w3 =
           [pending_row 0 (JStr ''run-1'') 1 1000, pending_row 1 (JStr ''run-1'') 2 1000,
            pending_row 2 (JStr ''run-1'') 3 1000] \<and>
         clock w3 = 1000"
proof -
  obtain w1 where
    i: "initializeSync example_env empty_world example_body = (Inr (JStr ''run-1''), w1)"
    and r1: "zoom_requests w1 = zoom_requests empty_world"
    using initializeSync_new [of example_body example_env "JStr ''run-1''" empty_world]
    by (auto simp: example_body_def example_env_def)
  from prepare_single_pages
    [of example_env example_request example_body empty_world "JStr ''run-1''" w1 "''token''"
        "example_page [1, 2, 3]" "example_page []", OF _ _ _ i]
  obtain w3 where
    p: "prepare example_env empty_world example_request =
          Some (Inr (JStr ''run-1'', rq_connectionId example_body,
                  page_items Past (example_page [1, 2, 3]) @
                  page_items Upcoming (example_page [])), w3)"
    and r3: "zoom_requests w3 =
               zoom_requests w1 @ [ListRequest Past JUndefined, ListRequest Upcoming JUndefined]"
    by (auto simp: example_env_def example_request_def example_body_def example_page_def)
  from prepare_queue [OF p] have
    "clock w3 = 1000" and
    "webinar_sync_queue w3 =
       [pending_row 0 (JStr ''run-1'') 1 1000, pending_row 1 (JStr ''run-1'') 2 1000,
        pending_row 2 (JStr ''run-1'') 3 1000]"
    by (simp_all add: empty_world_def queueItems_def next_queue_id_def page_items_def
          example_page_def pending_row_def js_or_def enumerate_eq_zip upt_conv_Cons)
  with p r3 r1 show ?thesis
    by (simp add: page_items_def example_page_def js_or_def example_body_def empty_world_def)
qed

lemma example_selectQueued:
  "webinar_sync_queue w3 =
     [pending_row 0 (JStr ''run-1'') 1 1000, pending_row 1 (JStr ''run-1'') 2 1000,
      pending_row 2 (JStr ''run-1'') 3 1000] \<Longrightarrow>
   selectQueued w3 (JStr ''run-1'') =
     [pending_row 0 (JStr ''run-1'') 1 1000, pending_row 1 (JStr ''run-1'') 2 1000,
      pending_row 2 (JStr ''run-1'') 3 1000]"
  by (simp add: selectQueued_def pending_row_def)

lemma example_item_succeeds:
  "webinar \<noteq> 2 \<Longrightarrow>
   fst (processWebinar example_env w (pending_row i syncId webinar t) syncId cid) = None"
  by (simp add: pw_defs fetchWebinarDetails_def example_env_def pending_row_def webinarData_def
        example_details_def)

lemma initializeSync_logs:
  assumes "initializeSync env w body = (Inr syncId, w1)"
  shows "if truthy (rq_resumeSyncId body)
         then syncId = rq_resumeSyncId body \<and> zoom_sync_logs w1 = zoom_sync_logs w
         else (\<exists>l. zoom_sync_logs w1 = zoom_sync_logs w @ [l] \<and> sl_id l = syncId \<and>
                    sl_status l = ''running'')"
proof (cases "truthy (rq_resumeSyncId body)")
  case True
  from initializeSync_resume [OF True, of env w] assms True show ?thesis
    by auto
next
  case False
  with assms obtain newId where n: "new_sync_log_id env = Some newId"
    by (cases "new_sync_log_id env") (auto simp: initializeSync_def Let_def)
  with False assms show ?thesis
    by (simp add: initializeSync_def Let_def broadcastProgress_def) auto
qed


lemma prepare_logs:
  assumes "prepare env w req = Some (Inr (syncId, cid, allWebinars), w3)"
  shows "\<exists>body. rq_json req = Inr body \<and>
           (if truthy (rq_resumeSyncId body)
            then syncId = rq_resumeSyncId body \<and> zoom_sync_logs w3 = zoom_sync_logs w
            else (\<exists>l. zoom_sync_logs w3 = zoom_sync_logs w @ [l] \<and> sl_id l = syncId \<and>
                       sl_status l = ''running''))"
proof -
  from prepare_success [OF assms] obtain body w1 w2 where
    b: "rq_json req = Inr body" and
    i: "initializeSync env w body = (Inr syncId, w1)" and
    e: "enumerateWebinars env w1 syncId = Some (Inr allWebinars, w2)" and
    q: "queueWebinars env w2 syncId cid allWebinars = (Inr (), w3)"
    by blast
  from enumerateWebinars_frame [OF e] queueWebinars_frame [OF q]
  have eq: "zoom_sync_logs w3 = zoom_sync_logs w1"
    by simp
  from initializeSync_logs [OF i] have
    "if truthy (rq_resumeSyncId body)
     then syncId = rq_resumeSyncId body \<and> zoom_sync_logs w3 = zoom_sync_logs w
     else (\<exists>l. zoom_sync_logs w3 = zoom_sync_logs w @ [l] \<and> sl_id l = syncId \<and>
                sl_status l = ''running'')"
    unfolding eq .
  with b show ?thesis
    by blast
qed

lemma completeSync_logs_eq:
  "zoom_sync_logs (snd (completeSync w syncId allWebinars)) =
     map (\<lambda>l. if sl_id l = syncId
               then l\<lparr>sl_status := ''completed'', sl_ended_at := Some (clock w),
                      sl_webinars_synced := Some (length allWebinars)\<rparr>
               else l) (zoom_sync_logs w)"
  by (simp add: completeSync_def Let_def broadcastProgress_def)

lemma processQueued_logs:
  "zoom_sync_logs (processQueued env w syncId cid) = zoom_sync_logs w \<and>
   clock (processQueued env w syncId cid) = clock w"
  by (simp only: processQueued_eq drainQueue_logs drainQueue_clock)

lemma processWebinar_outcome:
  "fst (processWebinar env w item syncId cid) =
     (case fetchWebinarDetails env (q_webinar_id item) (q_webinar_type item) of
        Inl e \<Rightarrow> Some e
      | Inr d \<Rightarrow>
          (case webinarData env (clock w) d
                  (fetchAdditionalWebinarData env (q_webinar_id item) (q_webinar_type item))
                  (determineWebinarStatus (toTime env) (clock w) d (q_webinar_type item))
                  (q_webinar_type item) cid of
             Inl e \<Rightarrow> Some e
           | Inr row \<Rightarrow> upsert_error env row))"
  by (simp add: pw_defs split: sum.splits option.splits)

lemma processWebinar_stores:
  assumes "fst (processWebinar env w item syncId cid) = None"
  shows "\<exists>d row.
     fetchWebinarDetails env (q_webinar_id item) (q_webinar_type item) = Inr d \<and>
     webinarData env (clock w) d
       (fetchAdditionalWebinarData env (q_webinar_id item) (q_webinar_type item))
       (determineWebinarStatus (toTime env) (clock w) d (q_webinar_type item))
       (q_webinar_type item) cid = Inr row \<and>
     upsert_error env row = None \<and>
     zoom_webinars (snd (processWebinar env w item syncId cid)) = upsert (zoom_webinars w) row"
  using assms
  by (auto simp: pw_defs split: sum.splits option.splits)

lemma processWebinar_failure_stores_nothing:
  "fst (processWebinar env w item syncId cid) = Some e \<Longrightarrow>
   zoom_webinars (snd (processWebinar env w item syncId cid)) = zoom_webinars w"
  by (auto simp: pw_defs split: sum.splits option.splits)

lemma webinarData_fields:
  "webinarData env t d a s ty cid = Inr r \<Longrightarrow>
   w_webinar_id r = js_or (wd_id d) (wd_uuid d) \<and> w_connection_id r = cid \<and>
   w_topic r = wd_topic d \<and> w_status r = s \<and> w_additional_data r = a \<and> w_synced_at r = t"
  by (auto simp: webinarData_def split: if_splits option.splits)

section \<open>Per-item fault isolation\<close>

text \<open>
  C3. When the run reaches the drain and processing one of the queued items fails
  (for instance because its detail fetch throws), the handler still answers: that
  item's row is marked \<open>failed\<close> with the error message and its \<open>retry_count\<close> is
  the selected row's plus one, an \<open>error\<close> progress event for it is published, the
  loop goes on (a detail request is sent for every queued item, in drain order, and
  every item whose processing succeeds is marked \<open>completed\<close>), the sync log of the
  run is set to \<open>completed\<close> and the response has status 200. The table of sync logs
  afterwards is the table the drain started with, where the rows of the run have got
  the status \<open>completed\<close>, the end time and the number of webinars; such a row exists
  when the run is new, and when the run is resumed and its log was there.
\<close>

theorem item_failure_does_not_abort_run:
  assumes prep: "prepare env w req = Some (Inr (syncId, cid, allWebinars), w3)"
    and meth: "rq_method req \<noteq> ''OPTIONS''"
    and ids: "distinct (map q_id (webinar_sync_queue w))"
    and item: "item \<in> set (selectQueued w3 syncId)"
    and fails: "fst (processWebinar env w3 item syncId cid) = Some e"
  shows "\<exists>response w'.
     serve env w req = Some (response, w') \<and>
     (\<exists>r\<in>set (webinar_sync_queue w').
        q_id r = q_id item \<and> q_processing_status r = ''failed'' \<and>
        q_error_message r = Some e \<and> q_retry_count r = q_retry_count item + 1) \<and>
     failed_event syncId item e \<in> set (sync_progress_updates w') \<and>
     zoom_requests w' = zoom_requests w3 @ detailRequests (selectQueued w3 syncId) \<and>
     (\<forall>other\<in>set (selectQueued w3 syncId).
        fst (processWebinar env w3 other syncId cid) = None \<longrightarrow>
        (\<exists>r\<in>set (webinar_sync_queue w').
           q_id r = q_id other \<and> q_processing_status r = ''completed'')) \<and>
     (\<forall>l\<in>set (zoom_sync_logs w'). sl_id l = syncId \<longrightarrow> sl_status l = ''completed'') \<and>
     zoom_sync_logs w' =
       map (\<lambda>l. if sl_id l = syncId
                 then l\<lparr>sl_status := ''completed'', sl_ended_at := Some (clock w3),
                        sl_webinars_synced := Some (length allWebinars)\<rparr>
                 else l) (zoom_sync_logs w3) \<and>
     ((\<exists>body. rq_json req = Inr body \<and> \<not> truthy (rq_resumeSyncId body)) \<or>
      syncId \<in> sl_id ` set (zoom_sync_logs w) \<longrightarrow>
        (\<exists>l\<in>set (zoom_sync_logs w'). sl_id l = syncId \<and> sl_status l = ''completed'')) \<and>
     rs_status response = 200"
proof -
  let ?items = "selectQueued w3 syncId"
  let ?w4 = "processQueued env w3 syncId cid"
  let ?done = "completeSync ?w4 syncId allWebinars"
  have ids3: "distinct (map q_id (webinar_sync_queue w3))"
    using prep ids by (rule prepare_distinct_ids)
  then have dsel: "distinct (map q_id ?items)"
    by (rule selectQueued_distinct)
  have sel: "x \<in> set (webinar_sync_queue w3)" if "x \<in> set ?items" for x
    using that by (simp add: selectQueued_set)
  have srv: "serve env w req = Some (fst ?done, snd ?done)"
    using serve_drains [OF prep meth] by simp
  have w4: "?w4 = fst (drainQueue env syncId cid (length ?items) ?items 0 0 w3)"
    by (rule processQueued_eq)
  have row: "\<exists>r\<in>set (webinar_sync_queue (snd ?done)).
        q_id r = q_id item \<and> q_processing_status r = ''failed'' \<and>
        q_error_message r = Some e \<and> q_retry_count r = q_retry_count item + 1"
    using drainQueue_failed_row [OF dsel item fails sel [OF item] refl]
    by (simp add: completeSync_frame w4)
  have ev: "failed_event syncId item e \<in> set (sync_progress_updates (snd ?done))"
    using drainQueue_failed_event [OF item fails] completeSync_frame [of ?w4 syncId allWebinars]
    unfolding w4 by blast
  have reqs: "zoom_requests (snd ?done) = zoom_requests w3 @ detailRequests ?items"
    by (simp add: completeSync_frame w4 drainQueue_requests)
  have others: "\<forall>other\<in>set ?items.
        fst (processWebinar env w3 other syncId cid) = None \<longrightarrow>
        (\<exists>r\<in>set (webinar_sync_queue (snd ?done)).
           q_id r = q_id other \<and> q_processing_status r = ''completed'')"
  proof (intro ballI impI)
    fix other
    assume o: "other \<in> set ?items" and n: "fst (processWebinar env w3 other syncId cid) = None"
    from drainQueue_completed_row [OF dsel o n sel [OF o] refl]
    show "\<exists>r\<in>set (webinar_sync_queue (snd ?done)).
           q_id r = q_id other \<and> q_processing_status r = ''completed''"
      by (simp add: completeSync_frame w4)
  qed
  have logs: "\<forall>l\<in>set (zoom_sync_logs (snd ?done)). sl_id l = syncId \<longrightarrow>
                sl_status l = ''completed''"
    using completeSync_logs by blast
  have logeq: "zoom_sync_logs (snd ?done) =
       map (\<lambda>l. if sl_id l = syncId
                 then l\<lparr>sl_status := ''completed'', sl_ended_at := Some (clock w3),
                        sl_webinars_synced := Some (length allWebinars)\<rparr>
                 else l) (zoom_sync_logs w3)"
    by (simp add: completeSync_logs_eq processQueued_logs)
  have ex: "(\<exists>body. rq_json req = Inr body \<and> \<not> truthy (rq_resumeSyncId body)) \<or>
      syncId \<in> sl_id ` set (zoom_sync_logs w) \<longrightarrow>
        (\<exists>l\<in>set (zoom_sync_logs (snd ?done)). sl_id l = syncId \<and> sl_status l = ''completed'')"
  proof
    assume a: "(\<exists>body. rq_json req = Inr body \<and> \<not> truthy (rq_resumeSyncId body)) \<or>
      syncId \<in> sl_id ` set (zoom_sync_logs w)"
    from prepare_logs [OF prep] a have "\<exists>l\<in>set (zoom_sync_logs w3). sl_id l = syncId"
      by (auto split: if_splits)
    then obtain l where l: "l \<in> set (zoom_sync_logs w3)" "sl_id l = syncId"
      by blast
    let ?l = "l\<lparr>sl_status := ''completed'', sl_ended_at := Some (clock w3),
                 sl_webinars_synced := Some (length allWebinars)\<rparr>"
    from l have "?l \<in> set (zoom_sync_logs (snd ?done))"
      unfolding logeq by (auto simp: image_iff intro!: bexI [of _ l])
    moreover have "sl_id ?l = syncId \<and> sl_status ?l = ''completed''"
      using l by simp
    ultimately show "\<exists>l\<in>set (zoom_sync_logs (snd ?done)).
        sl_id l = syncId \<and> sl_status l = ''completed''"
      by blast
  qed
  have st: "rs_status (fst ?done) = 200"
    by (simp add: completeSync_frame)
  from srv row ev reqs others logs logeq ex st show ?thesis
    by blast
qed

theorem item_failure_does_not_abort_run_witness:
  "\<exists>response w'.
     serve example_env empty_world example_request = Some (response, w') \<and>
     (\<exists>r\<in>set (webinar_sync_queue w').
        q_id r = 1 \<and> q_processing_status r = ''failed'' \<and>
        q_error_message r = Some ''Failed to fetch webinar details: boom'' \<and>
        q_retry_count r = 1) \<and>
     (\<exists>r\<in>set (webinar_sync_queue w'). q_id r = 0 \<and> q_processing_status r = ''completed'') \<and>
     (\<exists>r\<in>set (webinar_sync_queue w'). q_id r = 2 \<and> q_processing_status r = ''completed'') \<and>
     failed_event (JStr ''run-1'') (pending_row 1 (JStr ''run-1'') 2 1000)
         ''Failed to fetch webinar details: boom'' \<in> set (sync_progress_updates w') \<and>
     zoom_requests w' =
       [ListRequest Past JUndefined, ListRequest Upcoming JUndefined,
        DetailRequest (JNum 1) Past, DetailRequest (JNum 2) Past, DetailRequest (JNum 3) Past] \<and>
     (\<forall>l\<in>set (zoom_sync_logs w'). sl_id l = JStr ''run-1'' \<longrightarrow> sl_status l = ''completed'') \<and>
     map (\<lambda>l. (sl_id l, sl_status l)) (zoom_sync_logs w') = [(JStr ''run-1'', ''completed'')] \<and>
     rs_status response = 200"
proof -
  let ?sid = "JStr ''run-1''"
  let ?cid = "JStr ''conn-1''"
  let ?e = "''Failed to fetch webinar details: boom''"
  let ?rows = "[pending_row 0 ?sid 1 1000, pending_row 1 ?sid 2 1000, pending_row 2 ?sid 3 1000]"
  from example_prepare obtain w3 allWebinars where
    prep: "prepare example_env empty_world example_request =
             Some (Inr (?sid, ?cid, allWebinars), w3)"
    and reqs: "zoom_requests w3 = [ListRequest Past JUndefined, ListRequest Upcoming JUndefined]"
    and queue: "webinar_sync_queue w3 = ?rows"
    by blast
  have sel: "selectQueued w3 ?sid = ?rows"
    using queue by (rule example_selectQueued)
  have meth: "rq_method example_request \<noteq> ''OPTIONS''"
    by (simp add: example_request_def)
  have ids: "distinct (map q_id (webinar_sync_queue empty_world))"
    by (simp add: empty_world_def)
  have item: "pending_row 1 ?sid 2 1000 \<in> set (selectQueued w3 ?sid)"
    by (simp add: sel)
  have fails: "fst (processWebinar example_env w3 (pending_row 1 ?sid 2 1000) ?sid ?cid) = Some ?e"
    by (rule processWebinar_detail_failure)
       (simp add: fetchWebinarDetails_def example_env_def pending_row_def)
  from item_failure_does_not_abort_run [OF prep meth ids item fails]
  obtain response w' where
    srv: "serve example_env empty_world example_request = Some (response, w')"
    and row: "\<exists>r\<in>set (webinar_sync_queue w').
        q_id r = q_id (pending_row 1 ?sid 2 1000) \<and> q_processing_status r = ''failed'' \<and>
        q_error_message r = Some ?e \<and>
        q_retry_count r = q_retry_count (pending_row 1 ?sid 2 1000) + 1"
    and ev: "failed_event ?sid (pending_row 1 ?sid 2 1000) ?e \<in> set (sync_progress_updates w')"
    and rq: "zoom_requests w' = zoom_requests w3 @ detailRequests (selectQueued w3 ?sid)"
    and others: "\<forall>other\<in>set (selectQueued w3 ?sid).
        fst (processWebinar example_env w3 other ?sid ?cid) = None \<longrightarrow>
        (\<exists>r\<in>set (webinar_sync_queue w').
           q_id r = q_id other \<and> q_processing_status r = ''completed'')"
    and logs: "\<forall>l\<in>set (zoom_sync_logs w'). sl_id l = ?sid \<longrightarrow> sl_status l = ''completed''"
    and logeq: "zoom_sync_logs w' =
       map (\<lambda>l. if sl_id l = ?sid
                 then l\<lparr>sl_status := ''completed'', sl_ended_at := Some (clock w3),
                        sl_webinars_synced := Some (length allWebinars)\<rparr>
                 else l) (zoom_sync_logs w3)"
    and st: "rs_status response = 200"
    by blast
  from prepare_logs [OF prep] obtain l where
    "zoom_sync_logs w3 = [l]" "sl_id l = ?sid"
    by (auto simp: example_request_def example_body_def empty_world_def)
  with logeq have run: "map (\<lambda>l. (sl_id l, sl_status l)) (zoom_sync_logs w') =
      [(?sid, ''completed'')]"
    by simp
  from row have row': "\<exists>r\<in>set (webinar_sync_queue w').
        q_id r = 1 \<and> q_processing_status r = ''failed'' \<and>
        q_error_message r = Some ?e \<and> q_retry_count r = 1"
    by (simp add: pending_row_def)
  from others [rule_format, of "pending_row 0 ?sid 1 1000"]
  have c0: "\<exists>r\<in>set (webinar_sync_queue w'). q_id r = 0 \<and> q_processing_status r = ''completed''"
    by (simp add: sel example_item_succeeds) (simp add: pending_row_def)
  from others [rule_format, of "pending_row 2 ?sid 3 1000"]
  have c2: "\<exists>r\<in>set (webinar_sync_queue w'). q_id r = 2 \<and> q_processing_status r = ''completed''"
    by (simp add: sel example_item_succeeds) (simp add: pending_row_def)
  from rq have rq': "zoom_requests w' =
       [ListRequest Past JUndefined, ListRequest Upcoming JUndefined,
        DetailRequest (JNum 1) Past, DetailRequest (JNum 2) Past, DetailRequest (JNum 3) Past]"
    by (simp add: reqs sel detailRequests_def pending_row_def)
  from srv row' c0 c2 ev rq' logs run st show ?thesis
    by (intro exI [of _ response] exI [of _ w'] conjI)
qed

section \<open>Priority of the queued items\<close>

text \<open>
  C10. The rows the enumeration phase inserts all have priority 5 and a
  \<open>scheduled_at\<close> equal to the clock reading at the insert. So, when the rows the
  queue already holds for the run have priority 5 too (none, for a new run), every
  item of the run that the drain selects has priority 5 and the drain order is the
  order by \<open>scheduled_at\<close> alone.
\<close>

theorem queued_items_share_priority:
  assumes prep: "prepare env w req = Some (Inr (syncId, cid, allWebinars), w3)"
    and earlier: "\<forall>r\<in>set (webinar_sync_queue w). q_sync_id r = syncId \<longrightarrow> q_priority r = 5"
  shows "(\<exists>inserted.
            webinar_sync_queue w3 = webinar_sync_queue w @ inserted \<and>
            length inserted = length allWebinars \<and>
            (\<forall>r\<in>set inserted. q_priority r = 5 \<and> q_scheduled_at r = clock w3 \<and>
                               q_sync_id r = syncId)) \<and>
         (\<forall>r\<in>set (selectQueued w3 syncId). q_priority r = 5) \<and>
         selectQueued w3 syncId =
           sort_key q_scheduled_at
             (filter (\<lambda>r. q_sync_id r = syncId \<and> q_processing_status r = ''pending'')
                (webinar_sync_queue w3))"
proof -
  let ?new = "queueItems syncId (clock w) (next_queue_id (webinar_sync_queue w)) allWebinars"
  from prepare_queue [OF prep] have clk: "clock w3 = clock w"
    and q: "webinar_sync_queue w3 = webinar_sync_queue w @ ?new"
    by simp_all
  have new: "\<forall>r\<in>set ?new. q_priority r = 5 \<and> q_scheduled_at r = clock w3 \<and> q_sync_id r = syncId"
    by (auto simp: queueItems_def clk)
  have len: "length ?new = length allWebinars"
    by (simp add: queueItems_def)
  have all5: "\<forall>r\<in>set (webinar_sync_queue w3). q_sync_id r = syncId \<longrightarrow> q_priority r = 5"
    using earlier new by (auto simp: q)
  then have sel5: "\<forall>r\<in>set (selectQueued w3 syncId). q_priority r = 5"
    by (simp add: selectQueued_set)
  let ?pending = "filter (\<lambda>r. q_sync_id r = syncId \<and> q_processing_status r = ''pending'')
                    (webinar_sync_queue w3)"
  have "\<forall>r\<in>set (sort_key q_scheduled_at ?pending). - q_priority r = - 5"
    using all5 by simp
  then have "sort_key (\<lambda>r. - q_priority r) (sort_key q_scheduled_at ?pending) =
             sort_key q_scheduled_at ?pending"
    by (rule sort_key_constant)
  then have order: "selectQueued w3 syncId = sort_key q_scheduled_at ?pending"
    by (simp add: selectQueued_def)
  from q len new sel5 order show ?thesis
    by blast
qed

theorem queued_items_share_priority_witness:
  "\<exists>w3. prepare example_env empty_world example_request =
           Some (Inr (JStr ''run-1'', JStr ''conn-1'',
                   [\<lparr>qi_webinar_id = JNum 1, qi_webinar_type = Past\<rparr>,
                    \<lparr>qi_webinar_id = JNum 2, qi_webinar_type = Past\<rparr>,
                    \<lparr>qi_webinar_id = JNum 3, qi_webinar_type = Past\<rparr>]), w3) \<and>
         (\<exists>inserted.
            webinar_sync_queue w3 = webinar_sync_queue empty_world @ inserted \<and>
            length inserted = 3 \<and>
            (\<forall>r\<in>set inserted. q_priority r = 5 \<and> q_scheduled_at r = clock w3 \<and>
                               q_sync_id r = JStr ''run-1'')) \<and>
         (\<forall>r\<in>set (selectQueued w3 (JStr ''run-1'')). q_priority r = 5) \<and>
         selectQueued w3 (JStr ''run-1'') =
           sort_key q_scheduled_at
             (filter (\<lambda>r. q_sync_id r = JStr ''run-1'' \<and> q_processing_status r = ''pending'')
                (webinar_sync_queue w3))"
proof -
  from example_prepare obtain w3 where
    prep: "prepare example_env empty_world example_request =
             Some (Inr (JStr ''run-1'', JStr ''conn-1'',
                   [\<lparr>qi_webinar_id = JNum 1, qi_webinar_type = Past\<rparr>,
                    \<lparr>qi_webinar_id = JNum 2, qi_webinar_type = Past\<rparr>,
                    \<lparr>qi_webinar_id = JNum 3, qi_webinar_type = Past\<rparr>]), w3)"
    by blast
  have earlier: "\<forall>r\<in>set (webinar_sync_queue empty_world).
                   q_sync_id r = JStr ''run-1'' \<longrightarrow> q_priority r = 5"
    by (simp add: empty_world_def)
  from queued_items_share_priority [OF prep earlier] prep show ?thesis
    by (simp add: numeral_3_eq_3)
qed


section \<open>Pagination of the queue-based sync\<close>

lemma enumerateWebinars_never_ends:
  assumes "\<forall>k tok. \<exists>page. list_endpoint env Past k tok = Ok page \<and>
             truthy (lp_next_page_token page)"
  shows "enumerateWebinars env w syncId = None"
  by (simp add: enumerateWebinars_def Let_def fetchPages_never_ends [OF assms])

text \<open>
  C8. The pagination loops of the queue-based sync have no page-count ceiling: against
  a list endpoint that returns a continuation token on every call the handler polls it
  forever and never answers. (The older function \<open>fetchWebinars\<close> stops after
  \<open>maxPages = 10\<close> list calls, see \<open>fetchWebinars_at_most_maxPages\<close> and
  \<open>fetchWebinars_all_tokens\<close>.)
\<close>

theorem serve_polls_endless_list_forever:
  "serve endless_env empty_world example_request = None"
proof -
  obtain w1 where
    i: "initializeSync endless_env empty_world example_body = (Inr (JStr ''run-1''), w1)"
    using initializeSync_new [of example_body endless_env "JStr ''run-1''" empty_world]
    by (auto simp: example_body_def example_env_def endless_env_def)
  have "enumerateWebinars endless_env w1 (JStr ''run-1'') = None"
    by (rule enumerateWebinars_never_ends) (simp add: endless_env_def)
  with i have "prepare endless_env empty_world example_request = None"
    by (simp add: prepare_def endless_env_def example_env_def example_request_def
          example_body_def)
  then show ?thesis
    by (simp add: serve_def example_request_def)
qed

section \<open>Failures before the drain\<close>

text \<open>
  C4. When the credentials cannot be resolved after the sync log was created, the
  handler answers with status 500 and the message of the error and no detail request
  is sent, but the sync log of the run is left \<open>running\<close>: the \<open>catch\<close> block of the
  handler does not write to \<open>zoom_sync_logs\<close>.
\<close>

theorem failed_run_is_left_running:
  "\<exists>w'. serve no_connection_env empty_world example_request =
           Some (\<lparr>rs_status = 500,
                  rs_body = Some [(''error'', JStr ''Connection not found'')]\<rparr>, w') \<and>
         map sl_id (zoom_sync_logs w') = [JStr ''run-1''] \<and>
         map sl_status (zoom_sync_logs w') = [''running''] \<and>
         zoom_requests w' = []"
proof -
  obtain w1 where
    i: "initializeSync no_connection_env empty_world example_body = (Inr (JStr ''run-1''), w1)"
    and r: "zoom_requests w1 = zoom_requests empty_world"
    and ids: "map sl_id (zoom_sync_logs w1) = map sl_id (zoom_sync_logs empty_world) @ [JStr ''run-1'']"
    and sts: "map sl_status (zoom_sync_logs w1) =
                map sl_status (zoom_sync_logs empty_world) @ [''running'']"
    using initializeSync_new [of example_body no_connection_env "JStr ''run-1''" empty_world]
    by (auto simp: example_body_def example_env_def no_connection_env_def)
  from i have "prepare no_connection_env empty_world example_request =
                 Some (Inl ''Connection not found'', w1)"
    by (simp add: prepare_def no_connection_env_def example_env_def example_request_def
          example_body_def)
  from serve_fails [OF this] r ids sts show ?thesis
    by (simp add: example_request_def empty_world_def)
qed

section \<open>The shape of the response\<close>

lemma serve_response_shapes:
  assumes "serve env w req = Some (response, w')" and "rq_method req \<noteq> ''OPTIONS''"
  shows "(\<exists>syncId n. response =
            \<lparr>rs_status = 200,
             rs_body = Some [(''success'', JBool True), (''syncId'', syncId),
                             (''webinarsSynced'', JNum n),
                             (''message'', JStr ''Sync completed successfully'')]\<rparr>) \<or>
         (\<exists>m. m \<noteq> [] \<and> response = \<lparr>rs_status = 500, rs_body = Some [(''error'', JStr m)]\<rparr>)"
proof (cases "prepare env w req")
  case None
  with assms show ?thesis by (simp add: serve_def)
next
  case (Some r)
  obtain res w1 where r: "r = (res, w1)" by (cases r)
  show ?thesis
  proof (cases res)
    case (Inl e)
    with Some r assms show ?thesis
      by (cases "e = []") (auto simp: serve_def)
  next
    case (Inr x)
    obtain syncId cid allWebinars where x: "x = (syncId, cid, allWebinars)" by (cases x)
    with Inr Some r assms show ?thesis
      by (auto simp: serve_def completeSync_def Let_def)
  qed
qed

text \<open>
  C9. The body of a failure response of the queue-based sync is \<open>{error}\<close> alone, with
  status 500: it has no \<open>success\<close> field. (A request without \<open>connectionId\<close> is
  answered so, and nothing is written.)
\<close>

theorem failure_body_has_no_success_field:
  "serve example_env empty_world request_without_connection =
     Some (\<lparr>rs_status = 500,
            rs_body = Some [(''error'', JStr ''Connection ID is required'')]\<rparr>, empty_world)"
proof -
  have "prepare example_env empty_world request_without_connection =
          Some (Inl ''Connection ID is required'', empty_world)"
    by (simp add: prepare_def example_env_def request_without_connection_def example_body_def)
  from serve_fails [OF this] show ?thesis
    by (simp add: request_without_connection_def)
qed

section \<open>Resuming a run\<close>

lemma processWebinar_queue_webinars:
  "map (\<lambda>r. (q_sync_id r, q_webinar_id r))
     (webinar_sync_queue (snd (processWebinar env w item syncId cid))) =
   map (\<lambda>r. (q_sync_id r, q_webinar_id r)) (webinar_sync_queue w)"
  by (simp add: pw_defs comp_def split: sum.splits option.splits)

lemma drainQueue_queue_webinars:
  "map (\<lambda>r. (q_sync_id r, q_webinar_id r))
     (webinar_sync_queue (fst (drainQueue env syncId cid n items pc fc w))) =
   map (\<lambda>r. (q_sync_id r, q_webinar_id r)) (webinar_sync_queue w)"
proof (induction items arbitrary: pc fc w)
  case Nil
  then show ?case by simp
next
  case (Cons item items)
  obtain pc' fc' w2 where
    step: "fst (drainQueue env syncId cid n (item # items) pc fc w) =
           fst (drainQueue env syncId cid n items pc' fc' w2)"
    and q: "webinar_sync_queue w2 =
            webinar_sync_queue (snd (processWebinar env w item syncId cid))"
    by (rule drainQueue_step)
  show ?case
    unfolding step Cons.IH q by (rule processWebinar_queue_webinars)
qed

text \<open>
  C2. Resuming the interrupted run \<open>run-0\<close> (2 of 10 items completed) does not skip
  the enumeration: both lists are fetched again, ten new queue rows are inserted for
  \<open>run-0\<close>, so that every webinar has two rows, and the drain sends a detail request
  for the 8 rows that were pending and then for all 10 new rows, the two completed
  webinars included.
\<close>

theorem resume_enumerates_and_queues_again:
  "\<exists>response w'.
     serve resume_env interrupted_world resume_request = Some (response, w') \<and>
     zoom_requests w' =
       [ListRequest Past JUndefined, ListRequest Upcoming JUndefined] @
       map (\<lambda>i. DetailRequest (JNum i) Past)
         [3, 4, 5, 6, 7, 8, 9, 10, 1, 2, 3, 4, 5, 6, 7, 8, 9, 10] \<and>
     map (\<lambda>r. (q_sync_id r, q_webinar_id r)) (webinar_sync_queue w') =
       map (\<lambda>i. (JStr ''run-0'', JNum i))
         [1, 2, 3, 4, 5, 6, 7, 8, 9, 10, 1, 2, 3, 4, 5, 6, 7, 8, 9, 10]"
proof -
  let ?sid = "JStr ''run-0''"
  let ?cid = "JStr ''conn-1''"
  let ?body = "example_body\<lparr>rq_resumeSyncId := ?sid\<rparr>"
  let ?all = "page_items Past (example_page [1, 2, 3, 4, 5, 6, 7, 8, 9, 10]) @
              page_items Upcoming (example_page [])"
  obtain w1 where
    i: "initializeSync resume_env interrupted_world ?body = (Inr ?sid, w1)"
    and r1: "zoom_requests w1 = zoom_requests interrupted_world"
    using initializeSync_resume [of ?body resume_env interrupted_world]
    by auto
  from prepare_single_pages
    [of resume_env resume_request ?body interrupted_world ?sid w1 "''token''"
        "example_page [1, 2, 3, 4, 5, 6, 7, 8, 9, 10]" "example_page []", OF _ _ _ i]
  obtain w3 where
    p: "prepare resume_env interrupted_world resume_request =
          Some (Inr (?sid, rq_connectionId ?body, ?all), w3)"
    and r3: "zoom_requests w3 =
               zoom_requests w1 @ [ListRequest Past JUndefined, ListRequest Upcoming JUndefined]"
    by (auto simp: resume_env_def example_env_def resume_request_def example_body_def
          example_page_def)
  have queue: "webinar_sync_queue w3 =
      map interrupted_row [1, 2, 3, 4, 5, 6, 7, 8, 9, 10] @
      map (\<lambda>i. pending_row (10 + nat i) ?sid i 1000) [1, 2, 3, 4, 5, 6, 7, 8, 9, 10]"
    using prepare_queue [OF p]
    by (simp add: interrupted_world_def empty_world_def queueItems_def next_queue_id_def
          page_items_def example_page_def pending_row_def interrupted_row_def js_or_def
          enumerate_eq_zip upt_conv_Cons)
  have sel: "selectQueued w3 ?sid =
      map interrupted_row [3, 4, 5, 6, 7, 8, 9, 10] @
      map (\<lambda>i. pending_row (10 + nat i) ?sid i 1000) [1, 2, 3, 4, 5, 6, 7, 8, 9, 10]"
    by (simp add: selectQueued_def queue interrupted_row_def pending_row_def)
  have meth: "rq_method resume_request \<noteq> ''OPTIONS''"
    by (simp add: resume_request_def)
  let ?w4 = "processQueued resume_env w3 ?sid (rq_connectionId ?body)"
  let ?done = "completeSync ?w4 ?sid ?all"
  have srv: "serve resume_env interrupted_world resume_request = Some (fst ?done, snd ?done)"
    using serve_drains [OF p meth] by simp
  have reqs: "zoom_requests (snd ?done) =
       [ListRequest Past JUndefined, ListRequest Upcoming JUndefined] @
       map (\<lambda>i. DetailRequest (JNum i) Past)
         [3, 4, 5, 6, 7, 8, 9, 10, 1, 2, 3, 4, 5, 6, 7, 8, 9, 10]"
  proof -
    have "zoom_requests (snd ?done) = zoom_requests w3 @ detailRequests (selectQueued w3 ?sid)"
      by (simp only: completeSync_frame processQueued_eq drainQueue_requests)
    then show ?thesis
      by (simp add: r3 r1 sel detailRequests_def interrupted_row_def pending_row_def
            interrupted_world_def empty_world_def)
  qed
  have rows: "map (\<lambda>r. (q_sync_id r, q_webinar_id r)) (webinar_sync_queue (snd ?done)) =
       map (\<lambda>i. (JStr ''run-0'', JNum i))
         [1, 2, 3, 4, 5, 6, 7, 8, 9, 10, 1, 2, 3, 4, 5, 6, 7, 8, 9, 10]"
  proof -
    have "map (\<lambda>r. (q_sync_id r, q_webinar_id r)) (webinar_sync_queue (snd ?done)) =
          map (\<lambda>r. (q_sync_id r, q_webinar_id r)) (webinar_sync_queue w3)"
      by (simp only: completeSync_frame processQueued_eq drainQueue_queue_webinars)
    then show ?thesis
      by (simp add: queue interrupted_row_def pending_row_def)
  qed
  from srv reqs rows show ?thesis
    by blast
qed

section \<open>Auxiliary fetches\<close>

lemma fetchRegistrantCount_failed:
  "\<forall>v. registrants_endpoint env webinarId \<noteq> Ok v \<Longrightarrow>
   fetchRegistrantCount env webinarId = JNum 0"
  by (simp add: fetchRegistrantCount_def split: http.splits)

lemma fetchParticipantData_failed:
  "\<forall>v. participants_endpoint env webinarId \<noteq> Ok v \<Longrightarrow>
   fetchParticipantData env webinarId = (JNum 0, 0)"
  by (simp add: fetchParticipantData_def split: http.splits)

text \<open>
  What holds of the auxiliary fetches for every account: a failed registrant-count
  fetch (a response that is not ok, or a thrown call) yields 0, a failed participant
  fetch yields count 0 and average duration 0, and a tracking-sources, polls or Q&A
  fetch answered with a response that is not ok yields the empty list. Whatever the
  auxiliary endpoints answer, and also when their calls throw, an item whose detail
  fetch succeeds, whose \<open>created_at\<close> (if any) is a valid date and whose upsert the
  store accepts is processed without error: its row is upserted into \<open>zoom_webinars\<close>
  and its queue row is marked \<open>completed\<close>.
\<close>

lemma auxiliary_failure_does_not_fail_item:
  "((\<forall>v. registrants_endpoint env webinarId \<noteq> Ok v) \<longrightarrow>
      registrantCount (fetchAdditionalWebinarData env webinarId type) = JNum 0) \<and>
   ((\<forall>v. participants_endpoint env webinarId \<noteq> Ok v) \<longrightarrow>
      participantCount (fetchAdditionalWebinarData env webinarId Past) = JNum 0 \<and>
      avgAttendanceDuration (fetchAdditionalWebinarData env webinarId Past) = JNum 0) \<and>
   (\<forall>status error.
      (tracking_sources_endpoint env webinarId = NotOk status error \<longrightarrow>
         trackingSources (fetchAdditionalWebinarData env webinarId Upcoming) = JArr []) \<and>
      (polls_endpoint env webinarId = NotOk status error \<longrightarrow>
         polls (fetchAdditionalWebinarData env webinarId Past) = JArr []) \<and>
      (qa_endpoint env webinarId = NotOk status error \<longrightarrow>
         qa (fetchAdditionalWebinarData env webinarId Past) = JArr [])) \<and>
   (fetchWebinarDetails env (q_webinar_id item) (q_webinar_type item) = Inr d \<and>
    (truthy (wd_created_at d) \<longrightarrow> toTime env (wd_created_at d) \<noteq> None) \<and>
    (\<forall>row. upsert_error env row = None) \<longrightarrow>
      fst (processWebinar env w item syncId cid) = None \<and>
      (\<exists>row. webinarData env (clock w) d
                (fetchAdditionalWebinarData env (q_webinar_id item) (q_webinar_type item))
                (determineWebinarStatus (toTime env) (clock w) d (q_webinar_type item))
                (q_webinar_type item) cid = Inr row \<and>
             zoom_webinars (snd (processWebinar env w item syncId cid)) =
               upsert (zoom_webinars w) row) \<and>
      (\<forall>r\<in>set (webinar_sync_queue w). q_id r = q_id item \<longrightarrow>
         (\<exists>r'\<in>set (webinar_sync_queue (snd (processWebinar env w item syncId cid))).
            q_id r' = q_id item \<and> q_processing_status r' = ''completed'')))"
proof (intro conjI allI impI ballI)
  assume "\<forall>v. registrants_endpoint env webinarId \<noteq> Ok v"
  then show "registrantCount (fetchAdditionalWebinarData env webinarId type) = JNum 0"
    by (simp add: fetchAdditionalWebinarData_def Let_def fetchRegistrantCount_failed
          split: option.splits)
next
  assume "\<forall>v. participants_endpoint env webinarId \<noteq> Ok v"
  then show "participantCount (fetchAdditionalWebinarData env webinarId Past) = JNum 0"
    by (simp add: fetchAdditionalWebinarData_def Let_def fetchParticipantData_failed
          split: option.splits)
next
  assume "\<forall>v. participants_endpoint env webinarId \<noteq> Ok v"
  then show "avgAttendanceDuration (fetchAdditionalWebinarData env webinarId Past) = JNum 0"
    by (simp add: fetchAdditionalWebinarData_def Let_def fetchParticipantData_failed
          split: option.splits)
next
  fix status error
  assume "tracking_sources_endpoint env webinarId = NotOk status error"
  then show "trackingSources (fetchAdditionalWebinarData env webinarId Upcoming) = JArr []"
    by (simp add: fetchAdditionalWebinarData_def Let_def list_or_empty_def)
next
  fix status error
  assume "polls_endpoint env webinarId = NotOk status error"
  then show "polls (fetchAdditionalWebinarData env webinarId Past) = JArr []"
    by (simp add: fetchAdditionalWebinarData_def Let_def list_or_empty_def
          split: option.splits)
next
  fix status error
  assume "qa_endpoint env webinarId = NotOk status error"
  then show "qa (fetchAdditionalWebinarData env webinarId Past) = JArr []"
    by (simp add: fetchAdditionalWebinarData_def Let_def list_or_empty_def
          split: option.splits)
next
  assume a: "fetchWebinarDetails env (q_webinar_id item) (q_webinar_type item) = Inr d \<and>
    (truthy (wd_created_at d) \<longrightarrow> toTime env (wd_created_at d) \<noteq> None) \<and>
    (\<forall>row. upsert_error env row = None)"
  then show ok: "fst (processWebinar env w item syncId cid) = None"
    by (auto simp: processWebinar_outcome webinarData_def split: sum.splits option.splits)
  from processWebinar_stores [OF ok] a
  show "\<exists>row. webinarData env (clock w) d
                (fetchAdditionalWebinarData env (q_webinar_id item) (q_webinar_type item))
                (determineWebinarStatus (toTime env) (clock w) d (q_webinar_type item))
                (q_webinar_type item) cid = Inr row \<and>
             zoom_webinars (snd (processWebinar env w item syncId cid)) =
               upsert (zoom_webinars w) row"
    by auto
  fix r
  assume "r \<in> set (webinar_sync_queue w)" "q_id r = q_id item"
  from processWebinar_completed_row [OF ok this]
  show "\<exists>r'\<in>set (webinar_sync_queue (snd (processWebinar env w item syncId cid))).
            q_id r' = q_id item \<and> q_processing_status r' = ''completed''"
    using \<open>q_id r = q_id item\<close> by (intro bexI [rotated]) auto
qed

text \<open>
  C5. A tracking-sources, polls or Q&A call that throws does not yield the empty list.
  With the network down (every auxiliary call throws) the registrant count is 0 and the
  participant statistics are 0 and 0, as their \<open>catch\<close> blocks return the default, but
  the \<open>catch\<close> blocks of the tracking-sources, polls and Q&A calls only log:
  \<open>trackingSources\<close>, \<open>polls\<close> and \<open>qa\<close> are undefined, where the same calls answered
  with status 404 give the empty list. The item is processed all the same: its row is
  stored, with \<open>polls\<close> and \<open>qa\<close> undefined in its additional data, and its queue row
  is marked \<open>completed\<close>.
\<close>

theorem thrown_auxiliary_fetch_is_not_defaulted:
  "polls_endpoint offline_env (JNum 1) = Rejected ''offline'' \<and>
   qa_endpoint offline_env (JNum 1) = Rejected ''offline'' \<and>
   tracking_sources_endpoint offline_env (JNum 1) = Rejected ''offline'' \<and>
   polls (fetchAdditionalWebinarData offline_env (JNum 1) Past) = JUndefined \<and>
   qa (fetchAdditionalWebinarData offline_env (JNum 1) Past) = JUndefined \<and>
   trackingSources (fetchAdditionalWebinarData offline_env (JNum 1) Upcoming) = JUndefined \<and>
   registrantCount (fetchAdditionalWebinarData offline_env (JNum 1) Past) = JNum 0 \<and>
   participantCount (fetchAdditionalWebinarData offline_env (JNum 1) Past) = JNum 0 \<and>
   avgAttendanceDuration (fetchAdditionalWebinarData offline_env (JNum 1) Past) = JNum 0 \<and>
   polls (fetchAdditionalWebinarData refusing_env (JNum 1) Past) = JArr [] \<and>
   qa (fetchAdditionalWebinarData refusing_env (JNum 1) Past) = JArr [] \<and>
   trackingSources (fetchAdditionalWebinarData refusing_env (JNum 1) Upcoming) = JArr [] \<and>
   (\<exists>w' row.
      processWebinar offline_env one_pending_world (pending_row 1 (JStr ''run-1'') 1 1000)
        (JStr ''run-1'') (JStr ''conn-1'') = (None, w') \<and>
      zoom_webinars w' = [row] \<and>
      w_webinar_id row = JNum 1 \<and>
      polls (w_additional_data row) = JUndefined \<and>
      qa (w_additional_data row) = JUndefined \<and>
      map q_processing_status (webinar_sync_queue w') = [''completed''])"
proof -
  have aux:
   "polls_endpoint offline_env (JNum 1) = Rejected ''offline'' \<and>
    qa_endpoint offline_env (JNum 1) = Rejected ''offline'' \<and>
    tracking_sources_endpoint offline_env (JNum 1) = Rejected ''offline'' \<and>
    polls (fetchAdditionalWebinarData offline_env (JNum 1) Past) = JUndefined \<and>
    qa (fetchAdditionalWebinarData offline_env (JNum 1) Past) = JUndefined \<and>
    trackingSources (fetchAdditionalWebinarData offline_env (JNum 1) Upcoming) = JUndefined \<and>
    registrantCount (fetchAdditionalWebinarData offline_env (JNum 1) Past) = JNum 0 \<and>
    participantCount (fetchAdditionalWebinarData offline_env (JNum 1) Past) = JNum 0 \<and>
    avgAttendanceDuration (fetchAdditionalWebinarData offline_env (JNum 1) Past) = JNum 0"
    by (simp add: fetchAdditionalWebinarData_def Let_def list_or_empty_def offline_env_def
          example_env_def fetchRegistrantCount_def fetchParticipantData_def)
  have ref:
   "polls (fetchAdditionalWebinarData refusing_env (JNum 1) Past) = JArr [] \<and>
    qa (fetchAdditionalWebinarData refusing_env (JNum 1) Past) = JArr [] \<and>
    trackingSources (fetchAdditionalWebinarData refusing_env (JNum 1) Upcoming) = JArr []"
    by (simp add: fetchAdditionalWebinarData_def Let_def list_or_empty_def refusing_env_def
          example_env_def)
  let ?item = "pending_row 1 (JStr ''run-1'') 1 1000"
  let ?p = "processWebinar offline_env one_pending_world ?item (JStr ''run-1'') (JStr ''conn-1'')"
  have d: "fetchWebinarDetails offline_env (q_webinar_id ?item) (q_webinar_type ?item) =
             Inr (example_details (JNum 1))"
    by (simp add: fetchWebinarDetails_def offline_env_def example_env_def pending_row_def)
  have ok: "fst ?p = None"
    by (simp add: pw_defs fetchWebinarDetails_def offline_env_def example_env_def
          pending_row_def webinarData_def example_details_def)
  from processWebinar_stores [OF ok] d obtain row where
    r: "webinarData offline_env (clock one_pending_world) (example_details (JNum 1))
          (fetchAdditionalWebinarData offline_env (q_webinar_id ?item) (q_webinar_type ?item))
          (determineWebinarStatus (toTime offline_env) (clock one_pending_world)
             (example_details (JNum 1)) (q_webinar_type ?item))
          (q_webinar_type ?item) (JStr ''conn-1'') = Inr row"
    and z: "zoom_webinars (snd ?p) = upsert (zoom_webinars one_pending_world) row"
    by auto
  from z have z': "zoom_webinars (snd ?p) = [row]"
    by (simp add: upsert_def one_pending_world_def empty_world_def)
  from webinarData_fields [OF r] aux have f:
    "w_webinar_id row = JNum 1 \<and> polls (w_additional_data row) = JUndefined \<and>
     qa (w_additional_data row) = JUndefined"
    by (simp add: pending_row_def example_details_def js_or_def)
  have "?item \<in> set (webinar_sync_queue one_pending_world)"
    by (simp add: one_pending_world_def)
  from processWebinar_completed_row [OF ok this refl]
    processWebinar_queue_ids [of offline_env one_pending_world ?item "JStr ''run-1''" "JStr ''conn-1''"]
  have q: "map q_processing_status (webinar_sync_queue (snd ?p)) = [''completed'']"
    by (cases "webinar_sync_queue (snd ?p)") (auto simp: one_pending_world_def)
  from ok have "?p = (None, snd ?p)"
    by (cases ?p) simp
  with z' f q aux ref show ?thesis
    by (intro conjI exI [of _ "snd ?p"] exI [of _ row]) simp_all
qed

section \<open>HTTP 429 at a call site of the rate limiter\<close>

lemma waitForRateLimit_new:
  "0 \<le> t \<Longrightarrow> waitForRateLimit timer (newRateLimitManager t) t = (newRateLimitManager t, t)"
  by (simp add: waitForRateLimit_def newRateLimitManager_def Let_def
        MAX_CALLS_PER_SECOND_def MAX_CALLS_PER_MINUTE_def)

lemma executeWithRateLimit_detailOperation:
  "\<exists>m' t'. executeWithRateLimit timer parseInt (detailOperation env webinarId type) k m t =
     Some (case fetchWebinarDetails env webinarId type of
             Inl e \<Rightarrow> Inl (plain_error e) | Inr d \<Rightarrow> Inr d, m', t')"
  using executeWithRateLimit_without_status
    [where fn = "detailOperation env webinarId type" and k = k and timer = timer
       and parseInt = parseInt and m = m and t = t]
  by (cases "fetchWebinarDetails env webinarId type")
     (auto simp: detailOperation_def plain_error_def)

text \<open>
  C7. A detail endpoint that answers with HTTP status 429 is neither waited on nor
  retried. \<open>fetchWebinarDetails\<close> turns the response into a plain \<open>Error\<close> without
  \<open>status\<close>, so \<open>executeWithRateLimit\<close> does not take its 429 branch: the operation is
  invoked once, the error is rethrown at once, \<open>retryAfter\<close> and the clock are as before,
  and \<open>processWebinar\<close> marks the item \<open>failed\<close> after a single detail request.
\<close>

theorem http_429_is_neither_waited_on_nor_retried:
  "executeWithRateLimit timer parseInt (detailOperation throttling_env (JNum 1) Past) 0
     (newRateLimitManager 1000) 1000 =
     Some (Inl (plain_error ''Failed to fetch webinar details: Too Many Requests''),
           newRateLimitManager 1000, 1000) \<and>
   err_status (plain_error ''Failed to fetch webinar details: Too Many Requests'') =
     JUndefined \<and>
   (\<exists>w'. processWebinar throttling_env one_pending_world
            (pending_row 1 (JStr ''run-1'') 1 1000) (JStr ''run-1'') (JStr ''conn-1'') =
            (Some ''Failed to fetch webinar details: Too Many Requests'', w') \<and>
         zoom_requests w' = [DetailRequest (JNum 1) Past] \<and>
         clock w' = 1000 \<and>
         map q_processing_status (webinar_sync_queue w') = [''failed''])"
proof (intro conjI)
  have op: "fst (detailOperation throttling_env (JNum 1) Past 0) =
              Throws (plain_error ''Failed to fetch webinar details: Too Many Requests'')"
    "snd (detailOperation throttling_env (JNum 1) Past 0) = 0"
    by (simp_all add: detailOperation_def fetchWebinarDetails_def throttling_env_def)
  have "err_status (plain_error ''Failed to fetch webinar details: Too Many Requests'') \<noteq>
          JNum 429"
    by (simp add: plain_error_def)
  from executeWithRateLimit_rethrows
    [where fn = "detailOperation throttling_env (JNum 1) Past" and k = 0 and timer = timer
       and parseInt = parseInt and m = "newRateLimitManager 1000" and t = 1000, OF op(1) this]
  show "executeWithRateLimit timer parseInt (detailOperation throttling_env (JNum 1) Past) 0
     (newRateLimitManager 1000) 1000 =
     Some (Inl (plain_error ''Failed to fetch webinar details: Too Many Requests''),
           newRateLimitManager 1000, 1000)"
    by (simp add: waitForRateLimit_new op(2))
next
  show "err_status (plain_error ''Failed to fetch webinar details: Too Many Requests'') =
     JUndefined"
    by (simp add: plain_error_def)
next
  show "\<exists>w'. processWebinar throttling_env one_pending_world
            (pending_row 1 (JStr ''run-1'') 1 1000) (JStr ''run-1'') (JStr ''conn-1'') =
            (Some ''Failed to fetch webinar details: Too Many Requests'', w') \<and>
         zoom_requests w' = [DetailRequest (JNum 1) Past] \<and>
         clock w' = 1000 \<and>
         map q_processing_status (webinar_sync_queue w') = [''failed'']"
    by (simp add: pw_defs fetchWebinarDetails_def throttling_env_def example_env_def
          one_pending_world_def empty_world_def pending_row_def)
qed

section \<open>Re-sync of the same webinar\<close>

text \<open>
  C6. Processing the same webinar twice for the same connection leaves exactly one
  stored record. When two runs of \<open>processWebinar\<close> succeed for the connection \<open>cid\<close> and
  the two payloads fetched carry the same id (\<open>id || uuid\<close>), each run upserts the row
  that \<open>webinarData\<close> builds from its payload, whose \<open>webinar_id\<close> is that id and whose
  \<open>connection_id\<close> is \<open>cid\<close>; after the first run \<open>zoom_webinars\<close> holds exactly one row
  with this (webinar id, connection id) pair, the first row; after the second run it
  still holds exactly one, the second row whole; the second run adds no row, and the
  rows under other pairs are those the table had before. (The table may be read at
  another time of the clock by the second run; its rows between the runs are the
  same.)
\<close>

theorem processWebinar_twice_one_record:
  assumes keys: "distinct (map conflict_key (zoom_webinars w))"
    and first: "processWebinar env1 w item1 sync1 cid = (None, w1)"
    and between: "zoom_webinars w1' = zoom_webinars w1"
    and second: "processWebinar env2 w1' item2 sync2 cid = (None, w2)"
    and d1: "fetchWebinarDetails env1 (q_webinar_id item1) (q_webinar_type item1) = Inr d1"
    and d2: "fetchWebinarDetails env2 (q_webinar_id item2) (q_webinar_type item2) = Inr d2"
    and same: "js_or (wd_id d1) (wd_uuid d1) = js_or (wd_id d2) (wd_uuid d2)"
  shows "\<exists>row1 row2.
     webinarData env1 (clock w) d1
       (fetchAdditionalWebinarData env1 (q_webinar_id item1) (q_webinar_type item1))
       (determineWebinarStatus (toTime env1) (clock w) d1 (q_webinar_type item1))
       (q_webinar_type item1) cid = Inr row1 \<and>
     webinarData env2 (clock w1') d2
       (fetchAdditionalWebinarData env2 (q_webinar_id item2) (q_webinar_type item2))
       (determineWebinarStatus (toTime env2) (clock w1') d2 (q_webinar_type item2))
       (q_webinar_type item2) cid = Inr row2 \<and>
     w_webinar_id row1 = js_or (wd_id d1) (wd_uuid d1) \<and> w_connection_id row1 = cid \<and>
     w_webinar_id row2 = js_or (wd_id d2) (wd_uuid d2) \<and> w_connection_id row2 = cid \<and>
     zoom_webinars w1 = upsert (zoom_webinars w) row1 \<and>
     zoom_webinars w2 = upsert (zoom_webinars w1) row2 \<and>
     filter (\<lambda>x. w_webinar_id x = js_or (wd_id d2) (wd_uuid d2) \<and> w_connection_id x = cid)
       (zoom_webinars w1) = [row1] \<and>
     filter (\<lambda>x. w_webinar_id x = js_or (wd_id d2) (wd_uuid d2) \<and> w_connection_id x = cid)
       (zoom_webinars w2) = [row2] \<and>
     length (zoom_webinars w2) = length (zoom_webinars w1) \<and>
     filter (\<lambda>x. \<not> (w_webinar_id x = js_or (wd_id d2) (wd_uuid d2) \<and> w_connection_id x = cid))
       (zoom_webinars w2) =
     filter (\<lambda>x. \<not> (w_webinar_id x = js_or (wd_id d2) (wd_uuid d2) \<and> w_connection_id x = cid))
       (zoom_webinars w)"
proof -
  let ?k = "(js_or (wd_id d2) (wd_uuid d2), cid)"
  from processWebinar_stores [of env1 w item1 sync1 cid] first d1 obtain row1 where
    r1: "webinarData env1 (clock w) d1
       (fetchAdditionalWebinarData env1 (q_webinar_id item1) (q_webinar_type item1))
       (determineWebinarStatus (toTime env1) (clock w) d1 (q_webinar_type item1))
       (q_webinar_type item1) cid = Inr row1"
    and s1: "zoom_webinars w1 = upsert (zoom_webinars w) row1"
    by auto
  from processWebinar_stores [of env2 w1' item2 sync2 cid] second d2 between obtain row2 where
    r2: "webinarData env2 (clock w1') d2
       (fetchAdditionalWebinarData env2 (q_webinar_id item2) (q_webinar_type item2))
       (determineWebinarStatus (toTime env2) (clock w1') d2 (q_webinar_type item2))
       (q_webinar_type item2) cid = Inr row2"
    and s2: "zoom_webinars w2 = upsert (zoom_webinars w1) row2"
    by auto
  have k1: "conflict_key row1 = ?k"
    using webinarData_key [OF r1] same by simp
  have k2: "conflict_key row2 = ?k"
    using webinarData_key [OF r2] by simp
  have f1: "w_webinar_id row1 = js_or (wd_id d1) (wd_uuid d1) \<and> w_connection_id row1 = cid"
    using webinarData_fields [OF r1] by simp
  have f2: "w_webinar_id row2 = js_or (wd_id d2) (wd_uuid d2) \<and> w_connection_id row2 = cid"
    using webinarData_fields [OF r2] by simp
  have pred: "(\<lambda>x. w_webinar_id x = js_or (wd_id d2) (wd_uuid d2) \<and> w_connection_id x = cid) =
              (\<lambda>x. conflict_key x = ?k)"
    by (auto simp: conflict_key_def)
  have npred: "(\<lambda>x. \<not> (w_webinar_id x = js_or (wd_id d2) (wd_uuid d2) \<and> w_connection_id x = cid)) =
              (\<lambda>x. conflict_key x \<noteq> ?k)"
    by (auto simp: conflict_key_def)
  have dist1: "distinct (map conflict_key (zoom_webinars w1))"
    unfolding s1 using keys by (rule upsert_distinct)
  have one1: "filter (\<lambda>x. conflict_key x = ?k) (zoom_webinars w1) = [row1]"
    unfolding s1 using upsert_same_key [OF keys, of row1] by (simp add: k1)
  have one2: "filter (\<lambda>x. conflict_key x = ?k) (zoom_webinars w2) = [row2]"
    unfolding s2 using upsert_same_key [OF dist1, of row2] by (simp add: k2)
  have mem: "conflict_key row2 \<in> set (map conflict_key (zoom_webinars w1))"
    unfolding s1 upsert_keys by (simp add: k1 k2)
  have len: "length (zoom_webinars w2) = length (zoom_webinars w1)"
    unfolding s2 using mem by (rule upsert_length_conflict)
  have others: "filter (\<lambda>x. conflict_key x \<noteq> ?k) (zoom_webinars w2) =
                filter (\<lambda>x. conflict_key x \<noteq> ?k) (zoom_webinars w)"
    unfolding s2 s1
    using upsert_other_keys [of row2 "upsert (zoom_webinars w) row1"]
      upsert_other_keys [of row1 "zoom_webinars w"]
    by (simp add: k1 k2)
  from r1 r2 f1 f2 s1 s2 one1 one2 len others show ?thesis
    unfolding pred npred by blast
qed

theorem processWebinar_twice_one_record_witness:
  "\<exists>w1 w2 row1 row2.
     processWebinar example_env one_pending_world (pending_row 1 (JStr ''run-1'') 1 1000)
       (JStr ''run-1'') (JStr ''conn-1'') = (None, w1) \<and>
     processWebinar refusing_env (w1\<lparr>clock := 2000\<rparr>) (pending_row 1 (JStr ''run-2'') 1 2000)
       (JStr ''run-2'') (JStr ''conn-1'') = (None, w2) \<and>
     zoom_webinars w1 = [row1] \<and> zoom_webinars w2 = [row2] \<and>
     w_webinar_id row1 = JNum 1 \<and> w_connection_id row1 = JStr ''conn-1'' \<and>
     w_webinar_id row2 = JNum 1 \<and> w_connection_id row2 = JStr ''conn-1'' \<and>
     w_synced_at row1 = 1000 \<and> w_synced_at row2 = 2000 \<and>
     w_total_registrants row1 = JNum 7 \<and> w_total_registrants row2 = JNum 0"
proof -
  let ?i1 = "pending_row 1 (JStr ''run-1'') 1 1000"
  let ?i2 = "pending_row 1 (JStr ''run-2'') 1 2000"
  let ?cid = "JStr ''conn-1''"
  have d1: "fetchWebinarDetails example_env (q_webinar_id ?i1) (q_webinar_type ?i1) =
              Inr (example_details (JNum 1))"
    by (simp add: fetchWebinarDetails_def example_env_def pending_row_def)
  have d2: "fetchWebinarDetails refusing_env (q_webinar_id ?i2) (q_webinar_type ?i2) =
              Inr (example_details (JNum 1))"
    by (simp add: fetchWebinarDetails_def refusing_env_def example_env_def pending_row_def)
  have "fst (processWebinar example_env one_pending_world ?i1 (JStr ''run-1'') ?cid) = None"
    by (rule example_item_succeeds) simp
  then obtain w1 where
    first: "processWebinar example_env one_pending_world ?i1 (JStr ''run-1'') ?cid = (None, w1)"
    by (cases "processWebinar example_env one_pending_world ?i1 (JStr ''run-1'') ?cid") simp
  have "fst (processWebinar refusing_env (w1\<lparr>clock := 2000\<rparr>) ?i2 (JStr ''run-2'') ?cid) = None"
    by (simp add: pw_defs fetchWebinarDetails_def refusing_env_def example_env_def
          pending_row_def webinarData_def example_details_def)
  then obtain w2 where
    second: "processWebinar refusing_env (w1\<lparr>clock := 2000\<rparr>) ?i2 (JStr ''run-2'') ?cid =
               (None, w2)"
    by (cases "processWebinar refusing_env (w1\<lparr>clock := 2000\<rparr>) ?i2 (JStr ''run-2'') ?cid") simp
  have keys: "distinct (map conflict_key (zoom_webinars one_pending_world))"
    by (simp add: one_pending_world_def empty_world_def)
  have between: "zoom_webinars (w1\<lparr>clock := 2000\<rparr>) = zoom_webinars w1"
    by simp
  from processWebinar_twice_one_record [OF keys first between second d1 d2 refl]
  obtain row1 row2 where
    r1: "webinarData example_env (clock one_pending_world) (example_details (JNum 1))
       (fetchAdditionalWebinarData example_env (q_webinar_id ?i1) (q_webinar_type ?i1))
       (determineWebinarStatus (toTime example_env) (clock one_pending_world)
          (example_details (JNum 1)) (q_webinar_type ?i1))
       (q_webinar_type ?i1) ?cid = Inr row1"
    and r2: "webinarData refusing_env (clock (w1\<lparr>clock := 2000\<rparr>)) (example_details (JNum 1))
       (fetchAdditionalWebinarData refusing_env (q_webinar_id ?i2) (q_webinar_type ?i2))
       (determineWebinarStatus (toTime refusing_env) (clock (w1\<lparr>clock := 2000\<rparr>))
          (example_details (JNum 1)) (q_webinar_type ?i2))
       (q_webinar_type ?i2) ?cid = Inr row2"
    and s1: "zoom_webinars w1 = upsert (zoom_webinars one_pending_world) row1"
    and one2: "filter (\<lambda>x. w_webinar_id x =
                   js_or (wd_id (example_details (JNum 1))) (wd_uuid (example_details (JNum 1))) \<and>
                   w_connection_id x = ?cid) (zoom_webinars w2) = [row2]"
    and len: "length (zoom_webinars w2) = length (zoom_webinars w1)"
    by blast
  from s1 have z1: "zoom_webinars w1 = [row1]"
    by (simp add: upsert_def one_pending_world_def empty_world_def)
  with len obtain x where x: "zoom_webinars w2 = [x]"
    by (cases "zoom_webinars w2") auto
  with one2 have z2: "zoom_webinars w2 = [row2]"
    by (auto split: if_splits)
  have f1: "w_webinar_id row1 = JNum 1 \<and> w_connection_id row1 = ?cid \<and>
            w_synced_at row1 = 1000 \<and> w_total_registrants row1 = JNum 7"
    using r1
    by (auto simp: webinarData_def example_details_def example_env_def js_or_def
          fetchAdditionalWebinarData_def fetchRegistrantCount_def Let_def pending_row_def
          one_pending_world_def empty_world_def split: option.splits)
  have f2: "w_webinar_id row2 = JNum 1 \<and> w_connection_id row2 = ?cid \<and>
            w_synced_at row2 = 2000 \<and> w_total_registrants row2 = JNum 0"
    using r2
    by (auto simp: webinarData_def example_details_def refusing_env_def example_env_def js_or_def
          fetchAdditionalWebinarData_def fetchRegistrantCount_def Let_def pending_row_def
          split: option.splits)
  from first second z1 z2 f1 f2 show ?thesis
    by blast
qed
end
